theory Spec2Isabelle
  imports Main "HOL-Library.AList"
begin

section \<open>Objects used as dictionaries\<close>

text \<open>
  The relay keeps \<open>rooms\<close> and \<open>messageQueues\<close>, the client keeps \<open>peers\<close>: three plain
  objects (\<open>{}\<close>) that are indexed with strings from requests and messages. A lookup
  \<open>obj[k]\<close> finds an own property first and then goes up the prototype chain, so for a
  name that \<open>Object.prototype\<close> defines it finds a value although nothing was stored.
  \<open>object_prototype\<close> lists the function-valued property names of \<open>Object.prototype\<close> in
  Node.js and in browsers; \<open>__proto__\<close>, its one accessor, is treated where it is used.
\<close>

definition object_prototype :: "string list" where
  "object_prototype =
     [''constructor'', ''__defineGetter__'', ''__defineSetter__'', ''hasOwnProperty'',
      ''__lookupGetter__'', ''__lookupSetter__'', ''isPrototypeOf'', ''propertyIsEnumerable'',
      ''toString'', ''valueOf'', ''toLocaleString'']"

text \<open>
  What a lookup in one of these objects can yield: nothing, an array that was stored under
  the name, the array that is the object's prototype (see \<open>queues_set\<close>), the \<open>length\<close>
  or an element of such a prototype array, an inherited function, or \<open>Object.prototype\<close>
  itself. All but \<open>undefined\<close> and the number \<open>0\<close> are truthy; only the arrays have
  \<open>push\<close>, \<open>filter\<close> and \<open>forEach\<close>.
\<close>

datatype 'a jsval =
    Undefined
  | Array "'a list"
  | Prototype_Array "'a list"
  | Number nat
  | Element 'a
  | Function
  | Object_Prototype

fun truthy :: "'a jsval \<Rightarrow> bool" where
  "truthy Undefined = False"
| "truthy (Number n) = (n \<noteq> 0)"
| "truthy v = True"

text \<open>A name that no prototype of a plain object defines.\<close>

definition plain :: "string \<Rightarrow> bool" where
  "plain k = (k \<noteq> ''__proto__'' \<and> k \<notin> set object_prototype)"

text \<open>The name of the \<open>n\<close>th element of an array: \<open>n\<close> in decimal.\<close>

fun index_name :: "nat \<Rightarrow> string" where
  "index_name n =
     (if n < 10 then [''0123456789'' ! n]
      else index_name (n div 10) @ [''0123456789'' ! (n mod 10)])"

datatype exn = TypeError | Rejected

section \<open>The signalling relay (api/index.js)\<close>

text \<open>
  A request handler is a function from the state before the request to the response and
  the state after it. Each handler runs to completion without yielding, so a request is
  one atomic step. A handler that raises is answered by the framework with status 500;
  what it had stored before it raised stays stored.

  A field of a request body is a \<open>string option\<close>: \<open>None\<close> is a field that is absent
  (\<open>undefined\<close> or \<open>null\<close>), \<open>Some s\<close> is the string \<open>s\<close>. The wire contract gives every
  identifier the type string, so other JSON values are not modelled. The payload \<open>data\<close>
  is opaque to the relay and is a type parameter.

  The state holds the own properties of \<open>rooms\<close> and of \<open>messageQueues\<close>, and the
  prototype of \<open>messageQueues\<close> when it is no longer \<open>Object.prototype\<close>: \<open>poll\<close> assigns
  \<open>messageQueues[peerId] = []\<close> for any \<open>peerId\<close>, and for \<open>__proto__\<close> that assignment
  makes the new array the prototype of \<open>messageQueues\<close>. No assignment to
  \<open>rooms[roomId]\<close> is reached for \<open>__proto__\<close>, so \<open>rooms\<close> keeps its prototype.
\<close>

type_synonym peer_id = string
type_synonym room_id = string

record 'd message =
  mtype :: string
  mdata :: "'d option"
  mfrom :: string

record 'd server =
  rooms :: "room_id \<rightharpoonup> peer_id list"
  messageQueues :: "peer_id \<rightharpoonup> 'd message list"
  queuesPrototype :: "'d message list option"

text \<open>A response is status 400 with an error text, status 500, or the JSON body of a
  success. The body of \<open>/poll\<close> is \<open>Messages\<close> when its \<open>messages\<close> is an array, and
  \<open>Messages_Value\<close> when it is the serialisation of some other value (nothing at all for a
  function).\<close>

datatype error = BadRequest string | InternalError

datatype 'd response =
    ExistingPeers "peer_id list"
  | StatusOk
  | StatusLeft
  | Messages "'d message list"
  | Messages_Value "'d message jsval"

text \<open>The state of a freshly started process: \<open>const rooms = {}; const messageQueues = {}\<close>.\<close>

definition init_server :: "'d server" where
  "init_server = \<lparr>rooms = Map.empty, messageQueues = Map.empty, queuesPrototype = None\<rparr>"

text \<open>JavaScript's \<open>!x\<close> on a field: true for an absent field and for the empty string.\<close>

definition js_not :: "string option \<Rightarrow> bool" where
  "js_not x = (case x of None \<Rightarrow> True | Some v \<Rightarrow> v = [])"

text \<open>\<open>rooms[k]\<close>\<close>

definition rooms_get :: "'d server \<Rightarrow> string \<Rightarrow> peer_id jsval" where
  "rooms_get s k =
     (case rooms s k of
        Some ms \<Rightarrow> Array ms
      | None \<Rightarrow>
          if k = ''__proto__'' then Object_Prototype
          else if k \<in> set object_prototype then Function
          else Undefined)"

text \<open>
  \<open>messageQueues[k]\<close>. Once an array is the prototype, the chain is that array, then
  \<open>Array.prototype\<close>, then \<open>Object.prototype\<close>. The property names of \<open>Array.prototype\<close>
  depend on the version of the runtime; they are the parameter \<open>ap\<close> of the handlers.
\<close>

definition queues_get :: "string list \<Rightarrow> 'd server \<Rightarrow> string \<Rightarrow> 'd message jsval" where
  "queues_get ap s k =
     (case messageQueues s k of
        Some q \<Rightarrow> Array q
      | None \<Rightarrow>
          (case queuesPrototype s of
             None \<Rightarrow>
               if k = ''__proto__'' then Object_Prototype
               else if k \<in> set object_prototype then Function
               else Undefined
           | Some pq \<Rightarrow>
               if k = ''__proto__'' then Prototype_Array pq
               else if k = ''length'' then Number (length pq)
               else (case map_of (zip (map index_name [0..<length pq]) pq) k of
                       Some m \<Rightarrow> Element m
                     | None \<Rightarrow>
                         if k \<in> set ap \<or> k \<in> set object_prototype then Function
                         else Undefined)))"

text \<open>\<open>messageQueues[k] = q\<close>: for \<open>__proto__\<close> the setter of \<open>Object.prototype\<close> makes \<open>q\<close>
  the prototype; for every other name the assignment makes an own property.\<close>

definition queues_set :: "string \<Rightarrow> 'd message list \<Rightarrow> 'd server \<Rightarrow> 'd server" where
  "queues_set k q s =
     (if k = ''__proto__'' then s\<lparr>queuesPrototype := Some q\<rparr>
      else s\<lparr>messageQueues := (messageQueues s)(k \<mapsto> q)\<rparr>)"

text \<open>\<open>function ensureQueue(peerId)\<close>\<close>

definition ensureQueue :: "string list \<Rightarrow> peer_id \<Rightarrow> 'd server \<Rightarrow> 'd server" where
  "ensureQueue ap peerId s =
     (if \<not> truthy (queues_get ap s peerId) then queues_set peerId [] s else s)"

text \<open>\<open>messageQueues[other].push(m)\<close>: \<open>None\<close> when the call raises a TypeError, which it
  does on everything but an array.\<close>

definition push :: "string list \<Rightarrow> peer_id \<Rightarrow> 'd message \<Rightarrow> 'd server \<Rightarrow> 'd server option" where
  "push ap other m s =
     (case queues_get ap s other of
        Array q \<Rightarrow> Some (s\<lparr>messageQueues := (messageQueues s)(other \<mapsto> q @ [m])\<rparr>)
      | Prototype_Array pq \<Rightarrow> Some (s\<lparr>queuesPrototype := Some (pq @ [m])\<rparr>)
      | _ \<Rightarrow> None)"

text \<open>The two \<open>forEach\<close> loops, whose body is
  \<open>ensureQueue(other); messageQueues[other].push(m)\<close>: the loop ends at the first call that
  raises.\<close>

fun notifyAll :: "string list \<Rightarrow> 'd message \<Rightarrow> peer_id list \<Rightarrow> 'd server \<Rightarrow> exn option \<times> 'd server" where
  "notifyAll ap m [] s = (None, s)"
| "notifyAll ap m (other # others) s =
     (let s1 = ensureQueue ap other s
      in case push ap other m s1 of
           None \<Rightarrow> (Some TypeError, s1)
         | Some s2 \<Rightarrow> notifyAll ap m others s2)"

text \<open>\<open>app.post('/join')\<close>\<close>

definition join :: "string list \<Rightarrow> string option \<Rightarrow> string option \<Rightarrow> 'd server
    \<Rightarrow> (error + 'd response) \<times> 'd server" where
  "join ap roomId peerId s =
     (if js_not roomId \<or> js_not peerId then (Inl (BadRequest ''Missing roomId or peerId''), s)
      else case (roomId, peerId) of
        (Some r, Some p) \<Rightarrow>
          (let s1 = (if \<not> truthy (rooms_get s r) then s\<lparr>rooms := (rooms s)(r \<mapsto> [])\<rparr> else s)
           in case rooms_get s1 r of
                Array members \<Rightarrow>
                  (let existingPeers = filter (\<lambda>q. q \<noteq> p) members;
                       s2 = s1\<lparr>rooms := (rooms s1)(r \<mapsto> members @ [p])\<rparr>;
                       s3 = ensureQueue ap p s2
                   in case notifyAll ap \<lparr>mtype = ''peer-connected'', mdata = None, mfrom = p\<rparr>
                             existingPeers s3 of
                        (None, s4) \<Rightarrow> (Inr (ExistingPeers existingPeers), s4)
                      | (Some e, s4) \<Rightarrow> (Inl InternalError, s4))
              | _ \<Rightarrow> (Inl InternalError, s1))
      | _ \<Rightarrow> (Inl (BadRequest ''Missing roomId or peerId''), s))"

text \<open>\<open>app.post('/send')\<close>: the guard is \<open>!to || !type || from == null\<close>; the last disjunct
  holds for an absent \<open>from\<close> only, not for an empty one.\<close>

definition send :: "string list \<Rightarrow> string option \<Rightarrow> string option \<Rightarrow> 'd option \<Rightarrow> string option
    \<Rightarrow> 'd server \<Rightarrow> (error + 'd response) \<times> 'd server" where
  "send ap to type data from s =
     (if js_not to \<or> js_not type \<or> from = None then (Inl (BadRequest ''Missing fields''), s)
      else case (to, type, from) of
        (Some t, Some ty, Some f) \<Rightarrow>
          (let s1 = ensureQueue ap t s
           in case push ap t \<lparr>mtype = ty, mdata = data, mfrom = f\<rparr> s1 of
                None \<Rightarrow> (Inl InternalError, s1)
              | Some s2 \<Rightarrow> (Inr StatusOk, s2))
      | _ \<Rightarrow> (Inl (BadRequest ''Missing fields''), s))"

text \<open>\<open>app.post('/leave')\<close>: \<open>if (rooms[roomId])\<close> holds for every truthy value, and
  \<open>filter\<close> raises on one that is not an array.\<close>

definition leave :: "string list \<Rightarrow> string option \<Rightarrow> string option \<Rightarrow> 'd server
    \<Rightarrow> (error + 'd response) \<times> 'd server" where
  "leave ap roomId peerId s =
     (if js_not roomId \<or> js_not peerId then (Inl (BadRequest ''Missing roomId or peerId''), s)
      else case (roomId, peerId) of
        (Some r, Some p) \<Rightarrow>
          (case (if truthy (rooms_get s r)
                 then (case rooms_get s r of
                         Array members \<Rightarrow>
                           (let remaining = filter (\<lambda>q. q \<noteq> p) members;
                                sa = s\<lparr>rooms := (rooms s)(r \<mapsto> remaining)\<rparr>
                            in case notifyAll ap \<lparr>mtype = ''peer-disconnected'', mdata = None, mfrom = p\<rparr>
                                      remaining sa of
                                 (None, sb) \<Rightarrow>
                                   (None, if length remaining = 0
                                          then sb\<lparr>rooms := (rooms sb)(r := None)\<rparr> else sb)
                               | (Some e, sb) \<Rightarrow> (Some e, sb))
                       | _ \<Rightarrow> (Some TypeError, s))
                 else (None, s)) of
             (None, s1) \<Rightarrow> (Inr StatusLeft, s1\<lparr>messageQueues := (messageQueues s1)(p := None)\<rparr>)
           | (Some e, s1) \<Rightarrow> (Inl InternalError, s1))
      | _ \<Rightarrow> (Inl (BadRequest ''Missing roomId or peerId''), s))"

text \<open>\<open>app.get('/poll')\<close>: the value found under \<open>peerId\<close> goes into the response and
  \<open>messageQueues[peerId] = []\<close> is assigned, whatever the value was.\<close>

definition poll :: "string list \<Rightarrow> string option \<Rightarrow> 'd server \<Rightarrow> (error + 'd response) \<times> 'd server" where
  "poll ap peerId s =
     (if js_not peerId then (Inl (BadRequest ''Missing peerId''), s)
      else case peerId of
        Some p \<Rightarrow>
          (let s1 = ensureQueue ap p s;
               messages = queues_get ap s1 p;
               s2 = queues_set p [] s1
           in (Inr (case messages of
                      Array q \<Rightarrow> Messages q
                    | Prototype_Array q \<Rightarrow> Messages q
                    | v \<Rightarrow> Messages_Value v), s2))
      | None \<Rightarrow> (Inl (BadRequest ''Missing peerId''), s))"

text \<open>Requests, and a run of the server over a sequence of them.\<close>

datatype 'd request =
    Join "string option" "string option"
  | Send "string option" "string option" "'d option" "string option"
  | Leave "string option" "string option"
  | Poll "string option"




text \<open>The own queue of a peer and the own member sequence of a room, read as sequences:
  an absent one holds nothing.\<close>

definition queue_of :: "'d server \<Rightarrow> peer_id \<Rightarrow> 'd message list" where
  "queue_of s p = (case messageQueues s p of None \<Rightarrow> [] | Some q \<Rightarrow> q)"

definition members_of :: "'d server \<Rightarrow> room_id \<Rightarrow> peer_id list" where
  "members_of s r = (case rooms s r of None \<Rightarrow> [] | Some ms \<Rightarrow> ms)"

text \<open>One notification delivered to an own or new queue.\<close>

definition deliver :: "'d message \<Rightarrow> 'd server \<Rightarrow> peer_id \<Rightarrow> 'd server" where
  "deliver m s other = s\<lparr>messageQueues := (messageQueues s)(other \<mapsto> queue_of s other @ [m])\<rparr>"

section \<open>The client (public/script.js)\<close>

text \<open>
  The script keeps its state in global variables and runs on one thread. Every function
  is modelled as a function on a record of those variables. A function that awaits the
  browser (media capture, the connection subsystem, \<open>fetch\<close>) takes the browser's answer
  as an argument and is modelled as running to completion with that answer: the
  suspension points are collapsed, so one call is one step.

  A media track is an object shared by its stream and by every connection it is attached
  to; \<open>track.stop()\<close> changes the object. Tracks are therefore identified by a number and
  the state holds the set of tracks that have been stopped. Nothing in the script (or in
  the browser) makes a stopped track live again.
\<close>

datatype kind = Audio | Video

record track =
  tid :: nat
  kind :: kind

record stream =
  sid :: nat
  tracks :: "track list"

text \<open>
  An \<open>RTCPeerConnection\<close> as far as the script uses it. \<open>senders\<close> is the result of
  \<open>getSenders()\<close>: one entry per sender, holding the sender's track or \<open>None\<close> once
  \<open>removeTrack\<close> has detached it (the sender itself stays). \<open>candidates\<close> are the
  candidates passed to \<open>addIceCandidate\<close>, in order. What the connection subsystem does
  with its inputs is outside the model.
\<close>

record 'd connection =
  senders :: "track option list"
  localDescription :: "'d option"
  remoteDescription :: "'d option"
  candidates :: "'d list"

text \<open>The global variables, the parts of the page the script writes, the console, and the
  requests sent to \<open>/api/send\<close>. \<open>peers\<close> is an object used as a dictionary; it is an
  association list in insertion order, the order of \<open>Object.values\<close>.\<close>

record 'd client =
  roomId :: "string option"
  localStream :: "stream option"
  screenStream :: "stream option"
  currentStream :: "stream option"
  peers :: "(peer_id \<times> 'd connection) list"
  polling :: bool
  stopped :: "nat set"
  localVideo :: "stream option"
  remoteVideos :: "peer_id list"
  toggleLabel :: string
  joinDisabled :: bool
  alerts :: "string list"
  console :: "string list"
  outbox :: "(peer_id \<times> string \<times> 'd option) list"

text \<open>The answers of the environment during one call: the description that
  \<open>createOffer\<close> or \<open>createAnswer\<close> yields, whether the promise of \<open>addIceCandidate\<close> is
  rejected, and whether \<open>fetch\<close> fails.\<close>

record 'd env =
  description :: 'd
  candidateRejected :: bool
  fetchFails :: bool

text \<open>The state when the script has loaded; the label of the button comes from the page.\<close>

definition init_client :: "string \<Rightarrow> 'd client" where
  "init_client label =
     \<lparr>roomId = None, localStream = None, screenStream = None, currentStream = None,
      peers = [], polling = False, stopped = {}, localVideo = None, remoteVideos = [],
      toggleLabel = label, joinDisabled = False, alerts = [], console = [], outbox = []\<rparr>"

text \<open>The tracks a connection is sending: the tracks of the senders that have one.\<close>

fun sending :: "track option list \<Rightarrow> track list" where
  "sending [] = []"
| "sending (None # xs) = sending xs"
| "sending (Some t # xs) = t # sending xs"

definition getTracks :: "stream option \<Rightarrow> track list" where
  "getTracks st = (case st of None \<Rightarrow> [] | Some S \<Rightarrow> tracks S)"

definition getVideoTracks :: "stream \<Rightarrow> track list" where
  "getVideoTracks S = filter (\<lambda>t. kind t = Video) (tracks S)"

text \<open>\<open>createPeerConnection\<close>: a new connection; its three handlers are events of the
  environment (see \<open>fire\<close>).\<close>

definition createPeerConnection :: "'d connection" where
  "createPeerConnection =
     \<lparr>senders = [], localDescription = None, remoteDescription = None, candidates = []\<rparr>"

text \<open>\<open>pc.addTrack(track, stream)\<close> gives the track a sender. Every call site adds the
  tracks of one stream to a connection that is sending nothing, so the call cannot fail
  on a track that is already attached.\<close>

definition addTrack :: "'d connection \<Rightarrow> track \<Rightarrow> 'd connection" where
  "addTrack pc t = pc\<lparr>senders := senders pc @ [Some t]\<rparr>"

text \<open>\<open>peers[k]\<close>: a connection that was stored under the name, nothing, or, for a name
  that \<open>Object.prototype\<close> defines, an inherited value that is truthy and is no
  connection. No assignment to \<open>peers[k]\<close> is reached for such a name, so \<open>peers\<close> keeps
  its prototype.\<close>

datatype 'd peer_value = Absent | Connection "'d connection" | Inherited

definition peers_get :: "'d client \<Rightarrow> peer_id \<Rightarrow> 'd peer_value" where
  "peers_get s k =
     (case map_of (peers s) k of
        Some pc \<Rightarrow> Connection pc
      | None \<Rightarrow> if plain k then Absent else Inherited)"

text \<open>\<open>cleanupPeer\<close>: on an inherited value \<open>pc.close()\<close> raises a TypeError before
  anything is removed.\<close>

definition cleanupPeer :: "peer_id \<Rightarrow> 'd client \<Rightarrow> exn option \<times> 'd client" where
  "cleanupPeer remotePeerId s =
     (case peers_get s remotePeerId of
        Inherited \<Rightarrow> (Some TypeError, s)
      | _ \<Rightarrow>
          (None, s\<lparr>peers := AList.delete remotePeerId (peers s),
                    remoteVideos := removeAll remotePeerId (remoteVideos s)\<rparr>))"

text \<open>\<open>startLocalStream\<close>, once \<open>getUserMedia\<close> has answered with a stream.\<close>

definition startLocalStream :: "stream \<Rightarrow> 'd client \<Rightarrow> 'd client" where
  "startLocalStream L s = s\<lparr>localStream := Some L, currentStream := Some L, localVideo := Some L\<rparr>"

text \<open>
  \<open>replaceTracks(stream)\<close>, connection by connection: every sender with a track has its
  track stopped and is detached; then the tracks of the stream are added. With a null
  stream \<open>stream.getTracks()\<close> raises a TypeError on the first connection, after that
  connection has been stripped; the connections after it are not reached.
\<close>

fun replaceOn :: "stream option \<Rightarrow> (peer_id \<times> 'd connection) list \<Rightarrow> nat set
    \<Rightarrow> exn option \<times> (peer_id \<times> 'd connection) list \<times> nat set" where
  "replaceOn st [] ended = (None, [], ended)"
| "replaceOn st ((i, pc) # ps) ended =
     (let ended' = ended \<union> tid ` set (sending (senders pc));
          pc' = pc\<lparr>senders := map (\<lambda>x. None) (senders pc)\<rparr>
      in case st of
           None \<Rightarrow> (Some TypeError, (i, pc') # ps, ended')
         | Some S \<Rightarrow>
             (case replaceOn st ps ended' of
                (e, ps', ended'') \<Rightarrow> (e, (i, foldl addTrack pc' (tracks S)) # ps', ended'')))"

definition replaceTracks :: "stream option \<Rightarrow> 'd client \<Rightarrow> exn option \<times> 'd client" where
  "replaceTracks st s =
     (case replaceOn st (peers s) (stopped s) of
        (e, ps, ended) \<Rightarrow> (e, s\<lparr>peers := ps, stopped := ended\<rparr>))"

text \<open>\<open>stopScreenShare\<close>\<close>

definition stopScreenShare :: "'d client \<Rightarrow> exn option \<times> 'd client" where
  "stopScreenShare s =
     (case screenStream s of
        None \<Rightarrow> (None, s)
      | Some S \<Rightarrow>
          (let s1 = s\<lparr>stopped := stopped s \<union> tid ` set (tracks S)\<rparr>;
               s2 = s1\<lparr>screenStream := None\<rparr>;
               s3 = s2\<lparr>currentStream := localStream s2\<rparr>;
               s4 = s3\<lparr>localVideo := currentStream s3\<rparr>
           in case replaceTracks (currentStream s4) s4 of
                (Some e, s5) \<Rightarrow> (Some e, s5)
              | (None, s5) \<Rightarrow> (None, s5\<lparr>toggleLabel := ''Toggle Screen Share''\<rparr>)))"

text \<open>
  \<open>toggleScreenShare\<close>; \<open>capture\<close> is the outcome of \<open>getDisplayMedia\<close>, \<open>Inl\<close> when the
  request is rejected. \<open>startScreenShare\<close> is the \<open>try\<close> block from that outcome on:
  everything after the request is inside \<open>try\<close>, so an exception there is logged and not
  raised. A captured stream is assigned to \<open>screenStream\<close> before its first video track is
  looked up.
\<close>

definition startScreenShare :: "exn + stream \<Rightarrow> 'd client \<Rightarrow> exn option \<times> 'd client" where
  "startScreenShare capture s =
     (case capture of
        Inl err \<Rightarrow> (None, s\<lparr>console := console s @ [''Error starting screen share'']\<rparr>)
      | Inr S \<Rightarrow>
          (let s1 = s\<lparr>screenStream := Some S\<rparr>
           in case getVideoTracks S of
                [] \<Rightarrow> (None, s1\<lparr>console := console s1 @ [''Error starting screen share'']\<rparr>)
              | v # vs \<Rightarrow>
                  (let s2 = s1\<lparr>currentStream := screenStream s1\<rparr>;
                       s3 = s2\<lparr>localVideo := currentStream s2\<rparr>
                   in case replaceTracks (currentStream s3) s3 of
                        (Some e, s4) \<Rightarrow>
                          (None, s4\<lparr>console := console s4 @ [''Error starting screen share'']\<rparr>)
                      | (None, s4) \<Rightarrow> (None, s4\<lparr>toggleLabel := ''Stop Screen Share''\<rparr>))))"

definition toggleScreenShare :: "exn + stream \<Rightarrow> 'd client \<Rightarrow> exn option \<times> 'd client" where
  "toggleScreenShare capture s =
     (case screenStream s of
        None \<Rightarrow> startScreenShare capture s
      | Some S \<Rightarrow> stopScreenShare s)"

text \<open>\<open>sendMessage\<close>: a failed \<open>fetch\<close> is logged and not raised.\<close>

definition sendMessage :: "'d env \<Rightarrow> peer_id \<Rightarrow> string \<Rightarrow> 'd option \<Rightarrow> 'd client \<Rightarrow> 'd client" where
  "sendMessage env to type data s =
     (if fetchFails env then s\<lparr>console := console s @ [''Send message failed'']\<rparr>
      else s\<lparr>outbox := outbox s @ [(to, type, data)]\<rparr>)"

text \<open>The new connection of \<open>callPeer\<close> and \<open>answerCall\<close>, made only when
  \<open>peers[remotePeerId]\<close> is falsy: it is entered into \<open>peers\<close> first, then
  \<open>currentStream.getTracks()\<close> raises a TypeError when there is no current stream.\<close>

definition connectPeer :: "peer_id \<Rightarrow> 'd client \<Rightarrow> exn option \<times> 'd client" where
  "connectPeer remotePeerId s =
     (let s1 = s\<lparr>peers := AList.update remotePeerId createPeerConnection (peers s)\<rparr>
      in case currentStream s1 of
           None \<Rightarrow> (Some TypeError, s1)
         | Some C \<Rightarrow>
             (None, s1\<lparr>peers := AList.update remotePeerId
                        (foldl addTrack createPeerConnection (tracks C)) (peers s1)\<rparr>))"

definition updateConnection :: "peer_id \<Rightarrow> ('d connection \<Rightarrow> 'd connection) \<Rightarrow> 'd client \<Rightarrow> 'd client" where
  "updateConnection remotePeerId f s =
     (case map_of (peers s) remotePeerId of
        None \<Rightarrow> s
      | Some pc \<Rightarrow> s\<lparr>peers := AList.update remotePeerId (f pc) (peers s)\<rparr>)"

text \<open>\<open>callPeer\<close>: returns at once when \<open>peers[remotePeerId]\<close> is truthy.\<close>

definition callPeer :: "'d env \<Rightarrow> peer_id \<Rightarrow> 'd client \<Rightarrow> exn option \<times> 'd client" where
  "callPeer env remotePeerId s =
     (case peers_get s remotePeerId of
        Absent \<Rightarrow>
          (case connectPeer remotePeerId s of
             (Some e, s1) \<Rightarrow> (Some e, s1)
           | (None, s1) \<Rightarrow>
               (let offer = description env;
                    s2 = updateConnection remotePeerId (\<lambda>pc. pc\<lparr>localDescription := Some offer\<rparr>) s1
                in (None, sendMessage env remotePeerId ''offer'' (Some offer) s2)))
      | _ \<Rightarrow> (None, s))"

text \<open>\<open>answerCall\<close>; \<open>new RTCSessionDescription(offer)\<close> raises a TypeError when the
  message carries no payload, and \<open>pc.setRemoteDescription\<close> is no function when \<open>pc\<close> is
  an inherited value.\<close>

definition answerCall :: "'d env \<Rightarrow> peer_id \<Rightarrow> 'd option \<Rightarrow> 'd client \<Rightarrow> exn option \<times> 'd client" where
  "answerCall env remotePeerId offer s =
     (case peers_get s remotePeerId of
        Inherited \<Rightarrow> (Some TypeError, s)
      | found \<Rightarrow>
          (case (case found of Absent \<Rightarrow> connectPeer remotePeerId s | _ \<Rightarrow> (None, s)) of
             (Some e, s1) \<Rightarrow> (Some e, s1)
           | (None, s1) \<Rightarrow>
               (case offer of
                  None \<Rightarrow> (Some TypeError, s1)
                | Some d \<Rightarrow>
                    (let s2 = updateConnection remotePeerId (\<lambda>pc. pc\<lparr>remoteDescription := Some d\<rparr>) s1;
                         answer = description env;
                         s3 = updateConnection remotePeerId (\<lambda>pc. pc\<lparr>localDescription := Some answer\<rparr>) s2
                     in (None, sendMessage env remotePeerId ''answer'' (Some answer) s3)))))"

text \<open>\<open>acceptAnswer\<close>\<close>

definition acceptAnswer :: "peer_id \<Rightarrow> 'd option \<Rightarrow> 'd client \<Rightarrow> exn option \<times> 'd client" where
  "acceptAnswer remotePeerId answer s =
     (case peers_get s remotePeerId of
        Absent \<Rightarrow> (None, s)
      | Inherited \<Rightarrow> (Some TypeError, s)
      | Connection pc \<Rightarrow>
          (case answer of
             None \<Rightarrow> (Some TypeError, s)
           | Some d \<Rightarrow>
               (None, updateConnection remotePeerId (\<lambda>pc. pc\<lparr>remoteDescription := Some d\<rparr>) s)))"

text \<open>\<open>addIceCandidate\<close>: without a connection nothing happens. With one,
  \<open>new RTCIceCandidate(candidate)\<close> raises a TypeError when the message carries no
  payload; otherwise the candidate is passed to the connection, and a rejection of that
  call is logged. On an inherited value \<open>pc.addIceCandidate\<close> is no function and the call
  raises a TypeError.\<close>

definition addIceCandidate :: "'d env \<Rightarrow> peer_id \<Rightarrow> 'd option \<Rightarrow> 'd client \<Rightarrow> exn option \<times> 'd client" where
  "addIceCandidate env remotePeerId candidate s =
     (case peers_get s remotePeerId of
        Absent \<Rightarrow> (None, s)
      | Inherited \<Rightarrow> (Some TypeError, s)
      | Connection pc \<Rightarrow>
          (case candidate of
             None \<Rightarrow> (Some TypeError, s)
           | Some c \<Rightarrow>
               (let s1 = updateConnection remotePeerId (\<lambda>pc. pc\<lparr>candidates := candidates pc @ [c]\<rparr>) s
                in (None, if candidateRejected env
                          then s1\<lparr>console := console s1 @ [''ICE error'']\<rparr> else s1))))"

text \<open>\<open>handleMessage\<close>\<close>

definition handleMessage :: "'d env \<Rightarrow> 'd message \<Rightarrow> 'd client \<Rightarrow> exn option \<times> 'd client" where
  "handleMessage env msg s =
     (if mtype msg = ''peer-connected'' then callPeer env (mfrom msg) s
      else if mtype msg = ''peer-disconnected'' then cleanupPeer (mfrom msg) s
      else if mtype msg = ''offer'' then answerCall env (mfrom msg) (mdata msg) s
      else if mtype msg = ''answer'' then acceptAnswer (mfrom msg) (mdata msg) s
      else if mtype msg = ''ice-candidate'' then addIceCandidate env (mfrom msg) (mdata msg) s
      else (None, s\<lparr>console := console s @ [''Unknown message type'']\<rparr>))"

text \<open>One round of \<open>pollMessages\<close>: the messages of the response are handled in order; an
  exception, or a failed request (\<open>None\<close>), is logged and ends the round.\<close>

fun handleAll :: "'d env \<Rightarrow> 'd message list \<Rightarrow> 'd client \<Rightarrow> exn option \<times> 'd client" where
  "handleAll env [] s = (None, s)"
| "handleAll env (m # ms) s =
     (case handleMessage env m s of
        (Some e, s1) \<Rightarrow> (Some e, s1)
      | (None, s1) \<Rightarrow> handleAll env ms s1)"

definition pollRound :: "'d env \<Rightarrow> 'd message list option \<Rightarrow> 'd client \<Rightarrow> 'd client" where
  "pollRound env response s =
     (case response of
        None \<Rightarrow> s\<lparr>console := console s @ [''Polling error'']\<rparr>
      | Some messages \<Rightarrow>
          (case handleAll env messages s of
             (Some e, s1) \<Rightarrow> s1\<lparr>console := console s1 @ [''Polling error'']\<rparr>
           | (None, s1) \<Rightarrow> s1))"

text \<open>The loop of \<open>joinRoom\<close> over the existing peers.\<close>

fun callAll :: "'d env \<Rightarrow> peer_id list \<Rightarrow> 'd client \<Rightarrow> exn option \<times> 'd client" where
  "callAll env [] s = (None, s)"
| "callAll env (p # ps) s =
     (case callPeer env p s of
        (Some e, s1) \<Rightarrow> (Some e, s1)
      | (None, s1) \<Rightarrow> callAll env ps s1)"

text \<open>
  \<open>joinRoom\<close>; \<open>input\<close> is the trimmed content of the room field, \<open>media\<close> the outcome of
  \<open>getUserMedia\<close>, \<open>existing\<close> the \<open>existingPeers\<close> of the server's answer (\<open>None\<close> when the
  request fails). A rejected \<open>getUserMedia\<close> is outside \<open>try\<close> and is raised.
\<close>

definition joinRoom :: "'d env \<Rightarrow> string \<Rightarrow> exn + stream \<Rightarrow> peer_id list option \<Rightarrow> 'd client
    \<Rightarrow> exn option \<times> 'd client" where
  "joinRoom env input media existing s =
     (let s1 = s\<lparr>roomId := Some input\<rparr>
      in if js_not (roomId s1) then (None, s1\<lparr>alerts := alerts s1 @ [''Please enter a room ID'']\<rparr>)
         else
           (let s2 = s1\<lparr>joinDisabled := True\<rparr>
            in case media of
                 Inl e \<Rightarrow> (Some e, s2)
               | Inr L \<Rightarrow>
                   (let s3 = startLocalStream L s2
                    in case existing of
                         None \<Rightarrow> (None, s3\<lparr>console := console s3 @ [''Join failed'']\<rparr>)
                       | Some existingPeers \<Rightarrow>
                           (let s4 = (if \<not> polling s3 then s3\<lparr>polling := True\<rparr> else s3)
                            in case callAll env existingPeers s4 of
                                 (Some e, s5) \<Rightarrow> (None, s5\<lparr>console := console s5 @ [''Join failed'']\<rparr>)
                               | (None, s5) \<Rightarrow> (None, s5)))))"

text \<open>
  What can happen to a loaded page: a click on the join button (the handler calls
  \<open>joinRoom\<close> only while \<open>roomId\<close> is falsy), a click on the screen-share button, the
  answer to a capture request that was made while another one was pending (the test of
  \<open>screenStream\<close> is not repeated when the answer arrives), the end of a capture (the
  \<open>ended\<close> listener calls \<open>stopScreenShare\<close>), a round of the polling loop (only
  while \<open>polling\<close> holds), and the three handlers of a connection: a terminal
  connection state, a local candidate, a remote track. \<open>leaveRoom\<close> runs only in the
  \<open>beforeunload\<close> handler, after which the page, and with it this state, is gone.
\<close>

datatype 'd event =
    JoinClicked string "exn + stream" "peer_id list option"
  | ToggleClicked "exn + stream"
  | CaptureAnswered "exn + stream"
  | CaptureEnded
  | PollAnswered "'d message list option"
  | ConnectionEnded peer_id
  | CandidateFound peer_id 'd
  | TrackArrived peer_id

fun enabled :: "'d event \<Rightarrow> 'd client \<Rightarrow> bool" where
  "enabled (JoinClicked input media existing) s = js_not (roomId s)"
| "enabled (PollAnswered response) s = polling s"
| "enabled _ s = True"

fun fire :: "'d env \<Rightarrow> 'd event \<Rightarrow> 'd client \<Rightarrow> 'd client" where
  "fire env (JoinClicked input media existing) s = snd (joinRoom env input media existing s)"
| "fire env (ToggleClicked capture) s = snd (toggleScreenShare capture s)"
| "fire env (CaptureAnswered capture) s = snd (startScreenShare capture s)"
| "fire env CaptureEnded s = snd (stopScreenShare s)"
| "fire env (PollAnswered response) s = pollRound env response s"
| "fire env (ConnectionEnded p) s = snd (cleanupPeer p s)"
| "fire env (CandidateFound p c) s = sendMessage env p ''ice-candidate'' (Some c) s"
| "fire env (TrackArrived p) s =
     (if p \<in> set (remoteVideos s) then s else s\<lparr>remoteVideos := remoteVideos s @ [p]\<rparr>)"

text \<open>\<open>evolves s t\<close>: the page can get from state \<open>s\<close> to state \<open>t\<close>; a state is
  reachable when the loaded page can get to it.\<close>

inductive evolves :: "'d client \<Rightarrow> 'd client \<Rightarrow> bool" for s :: "'d client" where
  same: "evolves s s"
| fired: "evolves s t \<Longrightarrow> enabled e t \<Longrightarrow> evolves s (fire env e t)"

definition reachable :: "string \<Rightarrow> 'd client \<Rightarrow> bool" where
  "reachable label s = evolves (init_client label) s"

text \<open>
  The invariant of the client: every connection is sending exactly the tracks of the
  current stream; with no screen stream the current stream is the local stream; and
  connections and polling exist only once the local stream does and \<open>roomId\<close> is set.
\<close>

definition carries_current :: "'d client \<Rightarrow> bool" where
  "carries_current s =
     (list_all (\<lambda>(i, pc). sending (senders pc) = getTracks (currentStream s)) (peers s))"

definition client_inv :: "'d client \<Rightarrow> bool" where
  "client_inv s =
     (carries_current s
      \<and> (screenStream s = None \<longrightarrow> currentStream s = localStream s)
      \<and> (localStream s = None \<longrightarrow> peers s = [] \<and> \<not> polling s)
      \<and> (js_not (roomId s) \<longrightarrow> peers s = [] \<and> \<not> polling s))"

text \<open>The tracks the connection to a peer is sending, when there is such a connection.\<close>

definition outgoing :: "'d client \<Rightarrow> peer_id \<Rightarrow> track list option" where
  "outgoing s p = map_option (\<lambda>pc. sending (senders pc)) (map_of (peers s) p)"

text \<open>What \<open>replaceTracks\<close> makes of one connection when it has a stream, and the tracks
  that the connections of a list are sending.\<close>

definition reattach :: "stream \<Rightarrow> 'd connection \<Rightarrow> 'd connection" where
  "reattach S pc = foldl addTrack (pc\<lparr>senders := map (\<lambda>x. None) (senders pc)\<rparr>) (tracks S)"

definition sent_by :: "(peer_id \<times> 'd connection) list \<Rightarrow> nat set" where
  "sent_by ps = (\<Union>(i, pc) \<in> set ps. tid ` set (sending (senders pc)))"

text \<open>Two states that agree on the room, the three streams, polling and the stopped
  tracks.\<close>

definition same_media :: "'d client \<Rightarrow> 'd client \<Rightarrow> bool" where
  "same_media s s' =
     (roomId s' = roomId s \<and> localStream s' = localStream s \<and> screenStream s' = screenStream s
      \<and> currentStream s' = currentStream s \<and> polling s' = polling s \<and> stopped s' = stopped s)"

section \<open>What the specification expects of a run\<close>






section \<open>Example states\<close>

definition room_AB :: "nat server" where
  "room_AB = \<lparr>rooms = [''room'' \<mapsto> [''A'', ''B'']], messageQueues = Map.empty,
     queuesPrototype = None\<rparr>"

definition room_AB_pending :: "nat server" where
  "room_AB_pending =
     \<lparr>rooms = [''room'' \<mapsto> [''A'', ''B'']],
      messageQueues = [''A'' \<mapsto> [\<lparr>mtype = ''offer'', mdata = Some 7, mfrom = ''B''\<rparr>], ''B'' \<mapsto> []],
      queuesPrototype = None\<rparr>"



definition camera :: stream where
  "camera = \<lparr>sid = 1, tracks = [\<lparr>tid = 1, kind = Audio\<rparr>, \<lparr>tid = 2, kind = Video\<rparr>]\<rparr>"

definition screen :: stream where
  "screen = \<lparr>sid = 2, tracks = [\<lparr>tid = 3, kind = Video\<rparr>]\<rparr>"

definition env0 :: "nat env" where
  "env0 = \<lparr>description = 0, candidateRejected = False, fetchFails = False\<rparr>"

definition alone :: "nat client" where
  "alone = fire env0 (JoinClicked ''room'' (Inr camera) (Some [])) (init_client ''Toggle Screen Share'')"

definition with_B :: "nat client" where
  "with_B = fire env0 (JoinClicked ''room'' (Inr camera) (Some [''B''])) (init_client ''Toggle Screen Share'')"

definition joined_during_share :: "nat client" where
  "joined_during_share =
     fire env0 (PollAnswered (Some [\<lparr>mtype = ''peer-connected'', mdata = None, mfrom = ''B''\<rparr>]))
       (fire env0 (ToggleClicked (Inr screen)) alone)"

section \<open>Properties of the relay\<close>

subsection \<open>Identifiers that name no inherited property\<close>

lemma js_not_Some [simp]: "js_not (Some v) = (v = [])"
  by (simp add: js_not_def)

lemma js_not_None [simp]: "js_not None"
  by (simp add: js_not_def)

lemma rooms_get_plain:
  "plain r \<Longrightarrow> rooms_get s r = (case rooms s r of Some ms \<Rightarrow> Array ms | None \<Rightarrow> Undefined)"
  by (simp add: rooms_get_def plain_def split: option.splits)

lemma queues_get_plain:
  "queuesPrototype s = None \<Longrightarrow> plain k \<Longrightarrow>
   queues_get ap s k = (case messageQueues s k of Some q \<Rightarrow> Array q | None \<Rightarrow> Undefined)"
  by (simp add: queues_get_def plain_def split: option.splits)

lemma ensureQueue_plain:
  "queuesPrototype s = None \<Longrightarrow> plain k \<Longrightarrow>
   ensureQueue ap k s = s\<lparr>messageQueues := (messageQueues s)(k \<mapsto> queue_of s k)\<rparr>"
  by (auto simp: ensureQueue_def queues_get_plain queues_set_def plain_def queue_of_def
      map_upd_triv split: option.splits)

lemma push_ensured:
  "queuesPrototype s = None \<Longrightarrow> plain k \<Longrightarrow>
   push ap k m (ensureQueue ap k s) = Some (deliver m s k)"
  by (simp add: ensureQueue_plain push_def queues_get_plain deliver_def)

lemma deliver_fields [simp]:
  "rooms (deliver m s k) = rooms s" "queuesPrototype (deliver m s k) = queuesPrototype s"
  by (simp_all add: deliver_def)

lemma foldl_deliver_fields [simp]:
  "rooms (foldl (deliver m) s xs) = rooms s"
  "queuesPrototype (foldl (deliver m) s xs) = queuesPrototype s"
  by (induction xs arbitrary: s) simp_all

lemma notifyAll_plain:
  "queuesPrototype s = None \<Longrightarrow> list_all plain xs \<Longrightarrow>
   notifyAll ap m xs s = (None, foldl (deliver m) s xs)"
proof (induction xs arbitrary: s)
  case Nil
  show ?case by simp
next
  case (Cons x xs)
  then have "push ap x m (ensureQueue ap x s) = Some (deliver m s x)"
    by (simp add: push_ensured)
  moreover have "notifyAll ap m xs (deliver m s x) = (None, foldl (deliver m) (deliver m s x) xs)"
    using Cons.prems by (intro Cons.IH) simp_all
  ultimately show ?case by (simp add: Let_def)
qed

lemma queue_of_deliver:
  "queue_of (deliver m s other) q = queue_of s q @ (if q = other then [m] else [])"
  by (simp add: queue_of_def deliver_def)

lemma dom_deliver: "dom (messageQueues (deliver m s other)) = insert other (dom (messageQueues s))"
  by (simp add: deliver_def)

lemma queue_of_foldl_deliver:
  "queue_of (foldl (deliver m) s xs) q = queue_of s q @ replicate (count_list xs q) m"
proof (induction xs arbitrary: s)
  case Nil
  show ?case by simp
next
  case (Cons x xs)
  show ?case
    by (simp add: Cons.IH queue_of_deliver replicate_app_Cons_same)
qed

lemma dom_foldl_deliver:
  "dom (messageQueues (foldl (deliver m) s xs)) = set xs \<union> dom (messageQueues s)"
  by (induction xs arbitrary: s) (auto simp: dom_deliver)

lemma messageQueues_foldl_deliver:
  "messageQueues (foldl (deliver m) s xs) q =
     (if q \<in> set xs then Some (queue_of s q @ replicate (count_list xs q) m)
      else messageQueues s q)"
proof (cases "q \<in> set xs")
  case True
  then have "q \<in> dom (messageQueues (foldl (deliver m) s xs))"
    by (simp add: dom_foldl_deliver)
  then obtain v where v: "messageQueues (foldl (deliver m) s xs) q = Some v" by auto
  then have "v = queue_of (foldl (deliver m) s xs) q" by (simp add: queue_of_def)
  with v True show ?thesis by (simp add: queue_of_foldl_deliver)
next
  case False
  then show ?thesis
    by (induction xs arbitrary: s) (auto simp: deliver_def)
qed

text \<open>The handlers on names that nothing inherits.\<close>

lemma join_plain:
  assumes "r \<noteq> []" and "p \<noteq> []" and "plain r" and "plain p"
    and "queuesPrototype s = None" and "list_all plain (members_of s r)"
  shows "join ap (Some r) (Some p) s =
     (Inr (ExistingPeers (filter (\<lambda>q. q \<noteq> p) (members_of s r))),
      foldl (deliver \<lparr>mtype = ''peer-connected'', mdata = None, mfrom = p\<rparr>)
        (s\<lparr>rooms := (rooms s)(r \<mapsto> members_of s r @ [p]),
           messageQueues := (messageQueues s)(p \<mapsto> queue_of s p)\<rparr>)
        (filter (\<lambda>q. q \<noteq> p) (members_of s r)))"
proof -
  let ?s1 = "if \<not> truthy (rooms_get s r) then s\<lparr>rooms := (rooms s)(r \<mapsto> [])\<rparr> else s"
  have g: "rooms_get ?s1 r = Array (members_of s r)"
    using assms(3) by (simp add: rooms_get_plain members_of_def split: option.splits)
  let ?s2 = "?s1\<lparr>rooms := (rooms ?s1)(r \<mapsto> members_of s r @ [p])\<rparr>"
  have s2: "?s2 = s\<lparr>rooms := (rooms s)(r \<mapsto> members_of s r @ [p])\<rparr>"
    by simp
  have e: "ensureQueue ap p ?s2 =
      s\<lparr>rooms := (rooms s)(r \<mapsto> members_of s r @ [p]),
        messageQueues := (messageQueues s)(p \<mapsto> queue_of s p)\<rparr>"
    unfolding s2 using assms(4,5) by (simp add: ensureQueue_plain queue_of_def)
  have "list_all plain (filter (\<lambda>q. q \<noteq> p) (members_of s r))"
    using assms(6) by (simp add: list_all_iff)
  then have n: "notifyAll ap \<lparr>mtype = ''peer-connected'', mdata = None, mfrom = p\<rparr>
      (filter (\<lambda>q. q \<noteq> p) (members_of s r)) (ensureQueue ap p ?s2) =
    (None, foldl (deliver \<lparr>mtype = ''peer-connected'', mdata = None, mfrom = p\<rparr>)
      (ensureQueue ap p ?s2) (filter (\<lambda>q. q \<noteq> p) (members_of s r)))"
    using assms(5) by (intro notifyAll_plain) (simp_all add: e)
  show ?thesis
    unfolding join_def using assms(1,2) n [unfolded e]
    by (simp add: g Let_def e del: fun_upd_apply)
qed



lemma join_plain_queues:
  assumes "r \<noteq> []" and "p \<noteq> []" and "plain r" and "plain p"
    and "queuesPrototype s = None" and "list_all plain (members_of s r)"
  shows "messageQueues (snd (join ap (Some r) (Some p) s)) q =
     (if q \<in> set (filter (\<lambda>q. q \<noteq> p) (members_of s r))
      then Some (queue_of s q @
        replicate (count_list (filter (\<lambda>q. q \<noteq> p) (members_of s r)) q)
          \<lparr>mtype = ''peer-connected'', mdata = None, mfrom = p\<rparr>)
      else if q = p then Some (queue_of s p) else messageQueues s q)"
  by (simp add: join_plain [OF assms] messageQueues_foldl_deliver queue_of_def)


lemma join_plain_prototype:
  assumes "r \<noteq> []" and "p \<noteq> []" and "plain r" and "plain p"
    and "queuesPrototype s = None" and "list_all plain (members_of s r)"
  shows "queuesPrototype (snd (join ap (Some r) (Some p) s)) = None"
  by (simp add: join_plain [OF assms] assms(5))

lemma leave_plain:
  assumes "r \<noteq> []" and "p \<noteq> []" and "plain r"
    and "queuesPrototype s = None" and "list_all plain (members_of s r)"
  shows "leave ap (Some r) (Some p) s =
     (Inr StatusLeft,
      (foldl (deliver \<lparr>mtype = ''peer-disconnected'', mdata = None, mfrom = p\<rparr>)
         (s\<lparr>rooms := (if filter (\<lambda>q. q \<noteq> p) (members_of s r) = [] then (rooms s)(r := None)
                      else (rooms s)(r \<mapsto> filter (\<lambda>q. q \<noteq> p) (members_of s r)))\<rparr>)
         (filter (\<lambda>q. q \<noteq> p) (members_of s r)))
      \<lparr>messageQueues :=
         (messageQueues
           (foldl (deliver \<lparr>mtype = ''peer-disconnected'', mdata = None, mfrom = p\<rparr>) s
             (filter (\<lambda>q. q \<noteq> p) (members_of s r))))(p := None)\<rparr>)"
proof (cases "rooms s r")
  case None
  then have "rooms_get s r = Undefined"
    using assms(3) by (simp add: rooms_get_plain)
  with None assms(1,2) show ?thesis
    by (simp add: leave_def members_of_def fun_upd_idem)
next
  case (Some ms)
  then have g: "rooms_get s r = Array ms"
    using assms(3) by (simp add: rooms_get_plain)
  let ?rem = "filter (\<lambda>q. q \<noteq> p) ms"
  let ?m = "\<lparr>mtype = ''peer-disconnected'', mdata = None, mfrom = p\<rparr> :: 'a message"
  have "list_all plain ?rem"
    using assms(5) Some by (simp add: list_all_iff members_of_def)
  then have n: "notifyAll ap ?m ?rem (s\<lparr>rooms := (rooms s)(r \<mapsto> ?rem)\<rparr>) =
      (None, foldl (deliver ?m) (s\<lparr>rooms := (rooms s)(r \<mapsto> ?rem)\<rparr>) ?rem)"
    using assms(4) by (intro notifyAll_plain) simp_all
  have d: "deliver ?m (t\<lparr>rooms := x\<rparr>) a = (deliver ?m t a)\<lparr>rooms := x\<rparr>"
    for t :: "'a server" and x a
    by (simp add: deliver_def queue_of_def)
  have f: "foldl (deliver ?m) (t\<lparr>rooms := x\<rparr>) xs = (foldl (deliver ?m) t xs)\<lparr>rooms := x\<rparr>"
    for t :: "'a server" and x xs
    by (induction xs arbitrary: t) (simp_all add: d)
  show ?thesis
    unfolding leave_def using assms(1,2) Some
    by (simp add: g n Let_def members_of_def f)
qed


lemma leave_plain_queues:
  assumes "r \<noteq> []" and "p \<noteq> []" and "plain r"
    and "queuesPrototype s = None" and "list_all plain (members_of s r)"
  shows "messageQueues (snd (leave ap (Some r) (Some p) s)) q =
     (if q = p then None
      else if q \<in> set (filter (\<lambda>q. q \<noteq> p) (members_of s r))
      then Some (queue_of s q @
        replicate (count_list (filter (\<lambda>q. q \<noteq> p) (members_of s r)) q)
          \<lparr>mtype = ''peer-disconnected'', mdata = None, mfrom = p\<rparr>)
      else messageQueues s q)"
  by (simp add: leave_plain [OF assms] messageQueues_foldl_deliver)

lemma send_plain:
  "t \<noteq> [] \<Longrightarrow> ty \<noteq> [] \<Longrightarrow> plain t \<Longrightarrow> queuesPrototype s = None \<Longrightarrow>
   send ap (Some t) (Some ty) d (Some f) s =
     (Inr StatusOk,
      s\<lparr>messageQueues := (messageQueues s)(t \<mapsto> queue_of s t @ [\<lparr>mtype = ty, mdata = d, mfrom = f\<rparr>])\<rparr>)"
  by (simp add: send_def push_ensured deliver_def)

lemma send_rejected:
  "js_not to \<or> js_not type \<or> from = None \<Longrightarrow>
   send ap to type d from s = (Inl (BadRequest ''Missing fields''), s)"
  by (simp add: send_def)

lemma poll_plain:
  "p \<noteq> [] \<Longrightarrow> plain p \<Longrightarrow> queuesPrototype s = None \<Longrightarrow>
   poll ap (Some p) s =
     (Inr (Messages (queue_of s p)), s\<lparr>messageQueues := (messageQueues s)(p \<mapsto> [])\<rparr>)"
  by (simp add: poll_def Let_def ensureQueue_plain queues_get_plain queues_set_def plain_def)



lemma poll_rejected: "js_not p \<Longrightarrow> poll ap p s = (Inl (BadRequest ''Missing peerId''), s)"
  by (simp add: poll_def)

subsection \<open>The registry of rooms\<close>

lemma ensureQueue_rooms [simp]: "rooms (ensureQueue ap k s) = rooms s"
  by (simp add: ensureQueue_def queues_set_def)

lemma queues_set_rooms [simp]: "rooms (queues_set k q s) = rooms s"
  by (simp add: queues_set_def)






lemma join_inherited:
  assumes "r \<noteq> []" and "p \<noteq> []" and "rooms s r = None" and "\<not> plain r"
  shows "join ap (Some r) (Some p) s = (Inl InternalError, s)"
proof -
  from assms(3,4) have "truthy (rooms_get s r)" "\<forall>ms. rooms_get s r \<noteq> Array ms"
    by (auto simp: rooms_get_def plain_def)
  then show ?thesis
    using assms(1,2) by (auto simp: join_def split: jsval.splits)
qed




lemma leave_inherited:
  assumes "r \<noteq> []" and "p \<noteq> []" and "rooms s r = None" and "\<not> plain r"
  shows "leave ap (Some r) (Some p) s = (Inl InternalError, s)"
proof -
  from assms(3,4) have "truthy (rooms_get s r)" "\<forall>ms. rooms_get s r \<noteq> Array ms"
    by (auto simp: rooms_get_def plain_def)
  then show ?thesis
    using assms(1,2) by (auto simp: leave_def split: jsval.splits)
qed





subsection \<open>Membership\<close>








lemma plain_names [simp]:
  "plain ''room''" "plain ''other''" "plain ''A''" "plain ''B''" "plain ''C''" "plain ''D''"
  by (simp_all add: plain_def object_prototype_def)

lemma init_prototype [simp]: "queuesPrototype init_server = None"
  by (simp add: init_server_def)



subsection \<open>Claims about the relay\<close>

lemma constructor_inherited [simp]: "\<not> plain ''constructor''" "\<not> plain ''toString''"
  by (simp_all add: plain_def object_prototype_def)

text \<open>
  C1 fails on the code at a peer identifier that names a property every object inherits.
  \<open>messageQueues\<close> is a plain object, so \<open>messageQueues['constructor']\<close> is truthy on the
  fresh relay: \<open>ensureQueue\<close> creates no queue, and the first poll of \<open>constructor\<close>
  answers with the inherited function in place of an empty list (only afterwards is an
  own empty queue there). A message sent to \<open>constructor\<close> before that poll is not
  enqueued: \<open>push\<close> is no function of the inherited value, the request is answered with
  status 500, and the poll that follows does not return the message. At C, a name that
  no object inherits, the first poll creates the queue and returns the empty list, and a
  message sent to C is returned by the next poll.
\<close>

theorem poll_inherited_name:
  "poll ap (Some ''constructor'') (init_server :: 'd server) =
     (Inr (Messages_Value Function),
      (init_server :: 'd server)\<lparr>messageQueues := [''constructor'' \<mapsto> []]\<rparr>)
   \<and> send ap (Some ''constructor'') (Some ''offer'') d (Some ''B'') (init_server :: 'd server) =
       (Inl InternalError, init_server)
   \<and> poll ap (Some ''constructor'')
       (snd (send ap (Some ''constructor'') (Some ''offer'') d (Some ''B'') (init_server :: 'd server))) =
       (Inr (Messages_Value Function),
        (init_server :: 'd server)\<lparr>messageQueues := [''constructor'' \<mapsto> []]\<rparr>)
   \<and> poll ap (Some ''C'') (init_server :: 'd server) =
       (Inr (Messages []), (init_server :: 'd server)\<lparr>messageQueues := [''C'' \<mapsto> []]\<rparr>)
   \<and> fst (poll ap (Some ''C'')
         (snd (send ap (Some ''C'') (Some ''offer'') d (Some ''B'') (init_server :: 'd server)))) =
       Inr (Messages [\<lparr>mtype = ''offer'', mdata = d, mfrom = ''B''\<rparr>])"
proof -
  have "poll ap (Some ''constructor'') (init_server :: 'd server) =
     (Inr (Messages_Value Function),
      (init_server :: 'd server)\<lparr>messageQueues := [''constructor'' \<mapsto> []]\<rparr>)"
    by (simp add: poll_def Let_def ensureQueue_def queues_get_def queues_set_def
        init_server_def object_prototype_def)
  moreover have "send ap (Some ''constructor'') (Some ''offer'') d (Some ''B'') (init_server :: 'd server) =
       (Inl InternalError, init_server)"
    by (simp add: send_def Let_def ensureQueue_def queues_get_def push_def
        init_server_def object_prototype_def)
  moreover have "poll ap (Some ''C'') (init_server :: 'd server) =
       (Inr (Messages []), (init_server :: 'd server)\<lparr>messageQueues := [''C'' \<mapsto> []]\<rparr>)"
    by (simp add: poll_plain queue_of_def init_server_def)
  moreover have "fst (poll ap (Some ''C'')
         (snd (send ap (Some ''C'') (Some ''offer'') d (Some ''B'') (init_server :: 'd server)))) =
       Inr (Messages [\<lparr>mtype = ''offer'', mdata = d, mfrom = ''B''\<rparr>])"
    by (simp add: send_plain poll_plain queue_of_def init_server_def)
  ultimately show ?thesis by simp
qed

text \<open>
  C2 fails on the code at a room identifier that names a property every object inherits.
  \<open>rooms['constructor']\<close> is truthy on the fresh relay, so no room is created; the
  inherited value has no \<open>filter\<close>, the request is answered with status 500 in place of
  the empty list of existing peers, and the peer is in no room afterwards. At room names
  that no object inherits the handler does what C2 says: a new room is created with A as
  its member, and C joining the room of A and B is told of A and B, each of whom gets one
  \<open>peer-connected\<close> message from C.
\<close>

theorem join_inherited_name:
  "join ap (Some ''constructor'') (Some ''A'') (init_server :: 'd server) =
     (Inl InternalError, init_server)
   \<and> rooms (snd (join ap (Some ''constructor'') (Some ''A'') (init_server :: 'd server))) ''constructor'' = None
   \<and> join ap (Some ''other'') (Some ''A'') (init_server :: 'd server) =
       (Inr (ExistingPeers []),
        \<lparr>rooms = [''other'' \<mapsto> [''A'']], messageQueues = [''A'' \<mapsto> []], queuesPrototype = None\<rparr>)
   \<and> join ap (Some ''room'') (Some ''C'') room_AB =
       (Inr (ExistingPeers [''A'', ''B'']),
        \<lparr>rooms = [''room'' \<mapsto> [''A'', ''B'', ''C'']],
         messageQueues = [''C'' \<mapsto> [],
           ''A'' \<mapsto> [\<lparr>mtype = ''peer-connected'', mdata = None, mfrom = ''C''\<rparr>],
           ''B'' \<mapsto> [\<lparr>mtype = ''peer-connected'', mdata = None, mfrom = ''C''\<rparr>]],
         queuesPrototype = None\<rparr>)"
proof -
  have "join ap (Some ''constructor'') (Some ''A'') (init_server :: 'd server) =
     (Inl InternalError, init_server)"
    by (simp add: join_inherited init_server_def)
  moreover have "join ap (Some ''other'') (Some ''A'') (init_server :: 'd server) =
       (Inr (ExistingPeers []),
        \<lparr>rooms = [''other'' \<mapsto> [''A'']], messageQueues = [''A'' \<mapsto> []], queuesPrototype = None\<rparr>)"
    by (simp add: join_plain init_server_def members_of_def queue_of_def)
  moreover have "join ap (Some ''room'') (Some ''C'') room_AB =
       (Inr (ExistingPeers [''A'', ''B'']),
        \<lparr>rooms = [''room'' \<mapsto> [''A'', ''B'', ''C'']],
         messageQueues = [''C'' \<mapsto> [],
           ''A'' \<mapsto> [\<lparr>mtype = ''peer-connected'', mdata = None, mfrom = ''C''\<rparr>],
           ''B'' \<mapsto> [\<lparr>mtype = ''peer-connected'', mdata = None, mfrom = ''C''\<rparr>]],
         queuesPrototype = None\<rparr>)"
    by (simp add: join_plain room_AB_def members_of_def queue_of_def deliver_def)
  ultimately show ?thesis by (simp add: init_server_def)
qed

text \<open>
  C3 fails on the code at a room identifier that names a property every object inherits.
  No room \<open>constructor\<close> exists, yet \<open>rooms['constructor']\<close> is truthy: \<open>filter\<close> raises a
  TypeError, the request is answered with status 500, and the statement that discards the
  queue of the leaving peer is never reached: the offer waiting for A is still queued. At
  room names that no object inherits the handler does what C3 says: leaving the absent
  room \<open>other\<close> only discards the queue of A, and leaving the room of A and B leaves B as
  the member, with one \<open>peer-disconnected\<close> message from A in the queue of B.
\<close>

theorem leave_inherited_name:
  "rooms room_AB_pending ''constructor'' = None
   \<and> leave ap (Some ''constructor'') (Some ''A'') room_AB_pending =
       (Inl InternalError, room_AB_pending)
   \<and> messageQueues (snd (leave ap (Some ''constructor'') (Some ''A'') room_AB_pending)) ''A'' =
       Some [\<lparr>mtype = ''offer'', mdata = Some 7, mfrom = ''B''\<rparr>]
   \<and> leave ap (Some ''other'') (Some ''A'') room_AB_pending =
       (Inr StatusLeft,
        \<lparr>rooms = [''room'' \<mapsto> [''A'', ''B'']], messageQueues = [''B'' \<mapsto> []],
         queuesPrototype = None\<rparr>)
   \<and> leave ap (Some ''room'') (Some ''A'') room_AB_pending =
       (Inr StatusLeft,
        \<lparr>rooms = [''room'' \<mapsto> [''B'']],
         messageQueues = [''B'' \<mapsto> [\<lparr>mtype = ''peer-disconnected'', mdata = None, mfrom = ''A''\<rparr>]],
         queuesPrototype = None\<rparr>)"
proof -
  have "leave ap (Some ''constructor'') (Some ''A'') room_AB_pending =
       (Inl InternalError, room_AB_pending)"
    by (simp add: leave_inherited room_AB_pending_def)
  moreover have "leave ap (Some ''other'') (Some ''A'') room_AB_pending =
       (Inr StatusLeft,
        \<lparr>rooms = [''room'' \<mapsto> [''A'', ''B'']], messageQueues = [''B'' \<mapsto> []],
         queuesPrototype = None\<rparr>)"
    by (simp add: leave_plain room_AB_pending_def members_of_def queue_of_def fun_upd_twist)
  moreover have "leave ap (Some ''room'') (Some ''A'') room_AB_pending =
       (Inr StatusLeft,
        \<lparr>rooms = [''room'' \<mapsto> [''B'']],
         messageQueues = [''B'' \<mapsto> [\<lparr>mtype = ''peer-disconnected'', mdata = None, mfrom = ''A''\<rparr>]],
         queuesPrototype = None\<rparr>)"
    by (simp add: leave_plain room_AB_pending_def members_of_def queue_of_def deliver_def
        fun_upd_twist)
  ultimately show ?thesis by (simp add: room_AB_pending_def)
qed

text \<open>
  C5, as amended. A send request whose \<open>to\<close> or \<open>type\<close> is absent or empty, or whose
  \<open>from\<close> is absent, is answered with status 400 and changes nothing, and no other request
  is answered with status 400: an empty \<open>from\<close> is accepted. When the request is accepted,
  \<open>to\<close> names no property that objects inherit and the queue table has its original
  prototype, the message with the type, the payload and the sender of the request is
  appended to the queue of \<open>to\<close>, which is created when absent; the type is stored as it
  is, whatever it is, and the next poll of \<open>to\<close> delivers the message unchanged at the
  end of the queue.
\<close>

theorem send_spec:
  "(js_not to \<or> js_not type \<or> from = None \<longrightarrow>
      send ap to type data from s = (Inl (BadRequest ''Missing fields''), s))
   \<and> (\<forall>t ty f. to = Some t \<and> type = Some ty \<and> from = Some f \<and> t \<noteq> [] \<and> ty \<noteq> []
          \<and> plain t \<and> queuesPrototype s = None \<longrightarrow>
        send ap to type data from s =
          (Inr StatusOk,
           s\<lparr>messageQueues :=
               (messageQueues s)(t \<mapsto> queue_of s t @ [\<lparr>mtype = ty, mdata = data, mfrom = f\<rparr>])\<rparr>)
        \<and> fst (poll ap (Some t) (snd (send ap to type data from s))) =
            Inr (Messages (queue_of s t @ [\<lparr>mtype = ty, mdata = data, mfrom = f\<rparr>])))
   \<and> (\<exists>e. fst (send ap to type data from s) = Inl (BadRequest e)) =
       (to = None \<or> to = Some [] \<or> type = None \<or> type = Some [] \<or> from = None)"
proof (intro conjI allI impI)
  assume "js_not to \<or> js_not type \<or> from = None"
  then show "send ap to type data from s = (Inl (BadRequest ''Missing fields''), s)"
    by (rule send_rejected)
next
  fix t ty f
  assume a: "to = Some t \<and> type = Some ty \<and> from = Some f \<and> t \<noteq> [] \<and> ty \<noteq> []
      \<and> plain t \<and> queuesPrototype s = None"
  then show "send ap to type data from s =
          (Inr StatusOk,
           s\<lparr>messageQueues :=
               (messageQueues s)(t \<mapsto> queue_of s t @ [\<lparr>mtype = ty, mdata = data, mfrom = f\<rparr>])\<rparr>)"
    by (simp add: send_plain)
  from a show "fst (poll ap (Some t) (snd (send ap to type data from s))) =
            Inr (Messages (queue_of s t @ [\<lparr>mtype = ty, mdata = data, mfrom = f\<rparr>]))"
    by (simp add: send_plain poll_plain queue_of_def)
next
  show "(\<exists>e. fst (send ap to type data from s) = Inl (BadRequest e)) =
       (to = None \<or> to = Some [] \<or> type = None \<or> type = Some [] \<or> from = None)"
    by (cases to; cases type; cases "from")
      (auto simp: send_def Let_def split: option.splits)
qed

text \<open>A message of a type that no client knows, sent with an empty \<open>from\<close>, is stored for
  B and delivered; requests with an empty \<open>to\<close> or without \<open>from\<close> are rejected.\<close>

theorem send_spec_witness:
  "send [] (Some ''B'') (Some ''some-future-type'') (Some (5::nat)) (Some []) room_AB =
     (Inr StatusOk,
      room_AB\<lparr>messageQueues :=
        (messageQueues room_AB)(''B'' \<mapsto> [\<lparr>mtype = ''some-future-type'', mdata = Some 5, mfrom = []\<rparr>])\<rparr>)
   \<and> fst (poll [] (Some ''B'')
        (snd (send [] (Some ''B'') (Some ''some-future-type'') (Some (5::nat)) (Some []) room_AB))) =
       Inr (Messages [\<lparr>mtype = ''some-future-type'', mdata = Some 5, mfrom = []\<rparr>])
   \<and> send [] (Some []) (Some ''offer'') (Some (5::nat)) (Some ''A'') room_AB =
       (Inl (BadRequest ''Missing fields''), room_AB)
   \<and> send [] (Some ''B'') (Some ''offer'') (Some (5::nat)) None room_AB =
       (Inl (BadRequest ''Missing fields''), room_AB)"
  using send_spec [of "Some ''B''" "Some ''some-future-type''" "Some []" "[]" "Some 5" room_AB]
    send_spec [of "Some []" "Some ''offer''" "Some ''A''" "[]" "Some 5" room_AB]
    send_spec [of "Some ''B''" "Some ''offer''" None "[]" "Some 5" room_AB]
  by (simp add: room_AB_def queue_of_def poll_plain)

text \<open>C5 as stated fails in both directions: a send whose \<open>from\<close> is the empty string is
  accepted, and a send in which all of \<open>to\<close>, \<open>type\<close> and \<open>from\<close> are present, \<open>to\<close> being
  the empty string, is rejected.\<close>

theorem send_missing_counterexample:
  "fst (send [] (Some ''B'') (Some ''offer'') (Some (5::nat)) (Some []) init_server) = Inr StatusOk
   \<and> fst (send [] (Some []) (Some ''offer'') (Some (5::nat)) (Some ''A'') init_server) =
       Inl (BadRequest ''Missing fields'')"
  by (simp add: send_plain send_rejected)





section \<open>Properties of the client\<close>

subsection \<open>Tracks and connections\<close>

lemma sending_append: "sending (xs @ ys) = sending xs @ sending ys"
  by (induction xs rule: sending.induct) simp_all

lemma sending_detached: "sending (map (\<lambda>x. None) xs) = []"
  by (induction xs) simp_all

lemma senders_foldl_addTrack:
  "senders (foldl addTrack pc ts) = senders pc @ map Some ts"
  by (induction ts arbitrary: pc) (simp_all add: addTrack_def)

lemma sending_map_Some: "sending (map Some ts) = ts"
  by (induction ts) simp_all

lemma sending_foldl_addTrack:
  "sending (senders (foldl addTrack pc ts)) = sending (senders pc) @ ts"
  by (simp add: senders_foldl_addTrack sending_append sending_map_Some)

lemma sending_fresh: "sending (senders (foldl addTrack createPeerConnection ts)) = ts"
  by (simp add: sending_foldl_addTrack createPeerConnection_def)

lemma sending_reattach: "sending (senders (reattach S pc)) = tracks S"
  by (simp add: reattach_def sending_foldl_addTrack sending_detached)

lemma replaceOn_Some:
  "replaceOn (Some S) ps ended =
     (None, map (\<lambda>(i, pc). (i, reattach S pc)) ps, ended \<union> sent_by ps)"
  by (induction ps arbitrary: ended) (auto simp: reattach_def sent_by_def)

lemma replaceTracks_Some:
  "replaceTracks (Some S) s =
     (None, s\<lparr>peers := map (\<lambda>(i, pc). (i, reattach S pc)) (peers s),
              stopped := stopped s \<union> sent_by (peers s)\<rparr>)"
  by (simp add: replaceTracks_def replaceOn_Some)

lemma replaceTracks_no_peers: "peers s = [] \<Longrightarrow> replaceTracks st s = (None, s)"
  by (simp add: replaceTracks_def)

lemma map_of_reattach:
  "map_of (map (\<lambda>(i, pc). (i, reattach S pc)) ps) p = map_option (reattach S) (map_of ps p)"
  by (induction ps) auto

lemma same_media_refl: "same_media s s"
  by (simp add: same_media_def)

lemma same_media_trans: "same_media s s1 \<Longrightarrow> same_media s1 s2 \<Longrightarrow> same_media s s2"
  by (simp add: same_media_def)

lemma list_all_update:
  "list_all P ps \<Longrightarrow> P (k, v) \<Longrightarrow> list_all P (AList.update k v ps)"
  by (induction ps) auto

lemma list_all_delete: "list_all P ps \<Longrightarrow> list_all P (AList.delete k ps)"
  by (induction ps) (auto simp: AList.delete_eq)

lemma carries_update:
  "carries_current s \<Longrightarrow> sending (senders pc) = getTracks (currentStream s) \<Longrightarrow>
   carries_current (s\<lparr>peers := AList.update k pc (peers s)\<rparr>)"
  by (simp add: carries_current_def list_all_update)

lemma carries_lookup:
  "carries_current s \<Longrightarrow> map_of (peers s) p = Some pc \<Longrightarrow>
   sending (senders pc) = getTracks (currentStream s)"
  by (auto simp: carries_current_def list_all_iff dest: map_of_SomeD)

lemma connectPeer_keeps:
  "carries_current s \<Longrightarrow>
   carries_current (snd (connectPeer p s)) \<and> same_media s (snd (connectPeer p s))"
proof -
  assume a: "carries_current s"
  have "sending (senders (createPeerConnection :: 'a connection)) = []"
    by (simp add: createPeerConnection_def)
  with a show ?thesis
    by (auto simp: connectPeer_def Let_def carries_current_def sending_fresh
        getTracks_def same_media_def split: option.splits intro!: list_all_update)
qed

lemma updateConnection_keeps:
  assumes "carries_current s" and "\<And>pc. senders (f pc) = senders pc"
  shows "carries_current (updateConnection p f s) \<and> same_media s (updateConnection p f s)"
proof (cases "map_of (peers s) p")
  case None
  with assms show ?thesis
    by (simp add: updateConnection_def same_media_def)
next
  case (Some pc)
  with assms have "sending (senders (f pc)) = getTracks (currentStream s)"
    by (simp add: carries_lookup)
  with assms(1) have "carries_current (s\<lparr>peers := AList.update p (f pc) (peers s)\<rparr>)"
    by (rule carries_update)
  with Some show ?thesis
    by (simp add: updateConnection_def same_media_def)
qed

lemma sendMessage_keeps:
  "carries_current s \<Longrightarrow>
   carries_current (sendMessage env p ty d s) \<and> same_media s (sendMessage env p ty d s)"
  by (simp add: sendMessage_def carries_current_def same_media_def)

lemma cleanupPeer_keeps:
  "carries_current s \<Longrightarrow>
   carries_current (snd (cleanupPeer p s)) \<and> same_media s (snd (cleanupPeer p s))"
  by (simp add: cleanupPeer_def carries_current_def same_media_def list_all_delete
      split: peer_value.splits)

lemma cleanupPeer_peers:
  "peers s = [] \<Longrightarrow> peers (snd (cleanupPeer p s)) = []"
  by (simp add: cleanupPeer_def AList.delete_eq split: peer_value.splits)

lemma carries_same_media:
  "carries_current s \<Longrightarrow> peers s' = peers s \<Longrightarrow> currentStream s' = currentStream s \<Longrightarrow>
   carries_current s'"
  by (simp add: carries_current_def)

lemma callPeer_keeps:
  assumes "carries_current s"
  shows "carries_current (snd (callPeer env p s)) \<and> same_media s (snd (callPeer env p s))"
proof (cases "peers_get s p = Absent")
  case False
  with assms show ?thesis
    by (simp add: callPeer_def same_media_refl split: peer_value.splits)
next
  case None: True
  obtain e s1 where c: "connectPeer p s = (e, s1)" by (cases "connectPeer p s")
  with connectPeer_keeps [OF assms, of p] have s1: "carries_current s1" "same_media s s1"
    by simp_all
  show ?thesis
  proof (cases e)
    case (Some x)
    with None c s1 show ?thesis
      by (simp add: callPeer_def)
  next
    case e: None
    let ?s2 = "updateConnection p (\<lambda>pc. pc\<lparr>localDescription := Some (description env)\<rparr>) s1"
    have s2: "carries_current ?s2 \<and> same_media s1 ?s2"
      using s1(1) by (rule updateConnection_keeps) simp
    then have "carries_current (sendMessage env p ''offer'' (Some (description env)) ?s2)
        \<and> same_media ?s2 (sendMessage env p ''offer'' (Some (description env)) ?s2)"
      by (simp add: sendMessage_keeps)
    with s1 s2 None c e show ?thesis
      by (auto simp: callPeer_def Let_def intro: same_media_trans)
  qed
qed

lemma answerCall_keeps:
  assumes "carries_current s"
  shows "carries_current (snd (answerCall env p d s)) \<and> same_media s (snd (answerCall env p d s))"
proof (cases "peers_get s p = Inherited")
  case True
  with assms show ?thesis
    by (simp add: answerCall_def same_media_refl)
next
  case False
  define r where "r = (case peers_get s p of Absent \<Rightarrow> connectPeer p s | _ \<Rightarrow> (None, s))"
  obtain e s1 where c: "r = (e, s1)" by (cases r)
  have s1: "carries_current s1 \<and> same_media s s1"
    using connectPeer_keeps [OF assms, of p] assms c
    by (auto simp: r_def same_media_refl split: peer_value.splits)
  have a: "answerCall env p d s =
      (case r of
         (Some e, s1) \<Rightarrow> (Some e, s1)
       | (None, s1) \<Rightarrow>
           (case d of
              None \<Rightarrow> (Some TypeError, s1)
            | Some v \<Rightarrow>
                (let s2 = updateConnection p (\<lambda>pc. pc\<lparr>remoteDescription := Some v\<rparr>) s1;
                     answer = description env;
                     s3 = updateConnection p (\<lambda>pc. pc\<lparr>localDescription := Some answer\<rparr>) s2
                 in (None, sendMessage env p ''answer'' (Some answer) s3))))"
    using False unfolding answerCall_def r_def by (cases "peers_get s p") simp_all
  show ?thesis
  proof (cases "e = None \<and> d \<noteq> None")
    case False
    with s1 c show ?thesis
      unfolding a by (auto split: option.splits)
  next
    case True
    then obtain v where v: "d = Some v" "e = None" by auto
    let ?s2 = "updateConnection p (\<lambda>pc. pc\<lparr>remoteDescription := Some v\<rparr>) s1"
    let ?s3 = "updateConnection p (\<lambda>pc. pc\<lparr>localDescription := Some (description env)\<rparr>) ?s2"
    let ?s4 = "sendMessage env p ''answer'' (Some (description env)) ?s3"
    have s2: "carries_current ?s2 \<and> same_media s1 ?s2"
      using s1 by (intro updateConnection_keeps) simp_all
    then have s3: "carries_current ?s3 \<and> same_media ?s2 ?s3"
      by (intro updateConnection_keeps) simp_all
    then have s4: "carries_current ?s4 \<and> same_media ?s3 ?s4"
      by (simp add: sendMessage_keeps)
    have "snd (answerCall env p d s) = ?s4"
      unfolding a by (simp add: c v Let_def)
    with s1 s2 s3 s4 show ?thesis
      by (auto intro: same_media_trans)
  qed
qed

lemma acceptAnswer_keeps:
  assumes "carries_current s"
  shows "carries_current (snd (acceptAnswer p d s)) \<and> same_media s (snd (acceptAnswer p d s))"
proof -
  have "carries_current (updateConnection p (\<lambda>pc. pc\<lparr>remoteDescription := Some v\<rparr>) s)
      \<and> same_media s (updateConnection p (\<lambda>pc. pc\<lparr>remoteDescription := Some v\<rparr>) s)" for v
    using assms by (rule updateConnection_keeps) simp
  with assms show ?thesis
    by (auto simp: acceptAnswer_def same_media_refl split: option.splits peer_value.splits)
qed

lemma addIceCandidate_keeps:
  assumes "carries_current s"
  shows "carries_current (snd (addIceCandidate env p d s))
       \<and> same_media s (snd (addIceCandidate env p d s))"
proof -
  have u: "carries_current (updateConnection p (\<lambda>pc. pc\<lparr>candidates := candidates pc @ [v]\<rparr>) s)
      \<and> same_media s (updateConnection p (\<lambda>pc. pc\<lparr>candidates := candidates pc @ [v]\<rparr>) s)" for v
    using assms by (rule updateConnection_keeps) simp
  have l: "carries_current (t\<lparr>console := x\<rparr>) = carries_current t" for t :: "'a client" and x
    by (simp add: carries_current_def)
  have m: "same_media s (t\<lparr>console := x\<rparr>) = same_media s t" for t :: "'a client" and x
    by (simp add: same_media_def)
  from assms u show ?thesis
    by (auto simp: addIceCandidate_def same_media_refl Let_def l m
        split: option.splits peer_value.splits)
qed

lemma handleMessage_keeps:
  assumes "carries_current s"
  shows "carries_current (snd (handleMessage env m s))
       \<and> same_media s (snd (handleMessage env m s))"
proof -
  have "carries_current (s\<lparr>console := x\<rparr>) \<and> same_media s (s\<lparr>console := x\<rparr>)" for x
    using assms by (simp add: carries_current_def same_media_def)
  then show ?thesis
    unfolding handleMessage_def
    using callPeer_keeps [OF assms] cleanupPeer_keeps [OF assms] answerCall_keeps [OF assms]
      acceptAnswer_keeps [OF assms] addIceCandidate_keeps [OF assms]
    by simp
qed

lemma handleAll_keeps:
  "carries_current s \<Longrightarrow>
   carries_current (snd (handleAll env ms s)) \<and> same_media s (snd (handleAll env ms s))"
proof (induction ms arbitrary: s)
  case Nil
  then show ?case by (simp add: same_media_refl)
next
  case (Cons m ms)
  obtain e s1 where h: "handleMessage env m s = (e, s1)" by (cases "handleMessage env m s")
  with handleMessage_keeps [OF Cons.prems, of env m]
  have s1: "carries_current s1" "same_media s s1" by simp_all
  show ?case
  proof (cases e)
    case None
    with Cons.IH [OF s1(1)] s1 h show ?thesis
      by (auto intro: same_media_trans)
  next
    case (Some x)
    with s1 h show ?thesis by simp
  qed
qed

lemma callAll_keeps:
  "carries_current s \<Longrightarrow>
   carries_current (snd (callAll env ps s)) \<and> same_media s (snd (callAll env ps s))"
proof (induction ps arbitrary: s)
  case Nil
  then show ?case by (simp add: same_media_refl)
next
  case (Cons p ps)
  obtain e s1 where h: "callPeer env p s = (e, s1)" by (cases "callPeer env p s")
  with callPeer_keeps [OF Cons.prems, of env p]
  have s1: "carries_current s1" "same_media s s1" by simp_all
  show ?case
  proof (cases e)
    case None
    with Cons.IH [OF s1(1)] s1 h show ?thesis
      by (auto intro: same_media_trans)
  next
    case (Some x)
    with s1 h show ?thesis by simp
  qed
qed

lemma carries_reattached:
  "carries_current (s\<lparr>peers := map (\<lambda>(i, pc). (i, reattach S pc)) ps, currentStream := Some S\<rparr>)"
  by (induction ps) (auto simp: carries_current_def getTracks_def sending_reattach)

lemma inv_keeps:
  assumes "client_inv s" and "carries_current s'" and "same_media s s'"
    and "polling s \<or> (peers s = [] \<longrightarrow> peers s' = [])"
  shows "client_inv s'"
proof -
  from assms(1,4) have "peers s' = [] \<or> localStream s \<noteq> None \<and> \<not> js_not (roomId s)"
    unfolding client_inv_def by blast
  with assms(1,2,3) show ?thesis
    unfolding client_inv_def same_media_def by auto
qed

lemma stopScreenShare_inv:
  assumes "client_inv s"
  shows "client_inv (snd (stopScreenShare s))"
proof (cases "screenStream s")
  case None
  with assms show ?thesis by (simp add: stopScreenShare_def)
next
  case (Some S)
  show ?thesis
  proof (cases "localStream s")
    case None
    with assms have "peers s = []" "\<not> polling s"
      by (simp_all add: client_inv_def)
    with assms Some None show ?thesis
      by (simp add: stopScreenShare_def Let_def replaceTracks_no_peers client_inv_def
          carries_current_def)
  next
    case L: (Some L)
    have "snd (stopScreenShare s) =
        s\<lparr>stopped := stopped s \<union> tid ` set (tracks S) \<union> sent_by (peers s),
          screenStream := None, currentStream := Some L, localVideo := Some L,
          peers := map (\<lambda>(i, pc). (i, reattach L pc)) (peers s),
          toggleLabel := ''Toggle Screen Share''\<rparr>"
      by (simp add: stopScreenShare_def Some L Let_def replaceTracks_Some)
    moreover have "carries_current (s\<lparr>peers := map (\<lambda>(i, pc). (i, reattach L pc)) (peers s),
        currentStream := Some L\<rparr>)"
      by (rule carries_reattached)
    ultimately show ?thesis
      using assms L by (simp add: client_inv_def carries_current_def)
  qed
qed

lemma startScreenShare_inv:
  assumes "client_inv s"
  shows "client_inv (snd (startScreenShare capture s))"
proof (cases capture)
  case (Inl err)
  have "client_inv (s\<lparr>console := x\<rparr>)" for x
    using assms by (simp add: client_inv_def carries_current_def)
  with Inl show ?thesis
    by (simp add: startScreenShare_def)
next
  case (Inr S)
  show ?thesis
  proof (cases "getVideoTracks S")
    case Nil
    from assms have "client_inv (s\<lparr>screenStream := Some S, console := x\<rparr>)" for x
      by (auto simp: client_inv_def carries_current_def)
    with Inr Nil show ?thesis
      by (simp add: startScreenShare_def)
  next
    case (Cons v vs)
    have "snd (startScreenShare capture s) =
        s\<lparr>screenStream := Some S, currentStream := Some S, localVideo := Some S,
          peers := map (\<lambda>(i, pc). (i, reattach S pc)) (peers s),
          stopped := stopped s \<union> sent_by (peers s),
          toggleLabel := ''Stop Screen Share''\<rparr>"
      by (simp add: startScreenShare_def Inr Cons Let_def replaceTracks_Some)
    moreover have "carries_current (s\<lparr>peers := map (\<lambda>(i, pc). (i, reattach S pc)) (peers s),
        currentStream := Some S\<rparr>)"
      by (rule carries_reattached)
    ultimately show ?thesis
      using assms by (simp add: client_inv_def carries_current_def)
  qed
qed

lemma toggleScreenShare_inv:
  assumes "client_inv s"
  shows "client_inv (snd (toggleScreenShare capture s))"
  using stopScreenShare_inv [OF assms] startScreenShare_inv [OF assms]
  by (simp add: toggleScreenShare_def split: option.splits)

lemma pollRound_inv:
  assumes "client_inv s" and "polling s"
  shows "client_inv (pollRound env response s)"
proof (cases response)
  case None
  with assms show ?thesis
    by (simp add: pollRound_def client_inv_def carries_current_def)
next
  case (Some ms)
  obtain e s1 where h: "handleAll env ms s = (e, s1)" by (cases "handleAll env ms s")
  from assms have "carries_current s" by (simp add: client_inv_def)
  from handleAll_keeps [OF this, of env ms] h
  have s1: "carries_current s1" "same_media s s1" by simp_all
  from assms(1) s1 have "client_inv s1"
    by (rule inv_keeps) (simp add: assms(2))
  then have "client_inv (s1\<lparr>console := x\<rparr>)" for x
    by (simp add: client_inv_def carries_current_def)
  with \<open>client_inv s1\<close> h Some show ?thesis
    by (cases e) (simp_all add: pollRound_def)
qed

lemma joinRoom_inv:
  assumes "client_inv s" and "js_not (roomId s)"
  shows "client_inv (snd (joinRoom env input media existing s))"
proof -
  from assms have empty: "peers s = []" "\<not> polling s"
    by (simp_all add: client_inv_def)
  show ?thesis
  proof (cases "input = []")
    case True
    with assms show ?thesis
      by (simp add: joinRoom_def Let_def client_inv_def carries_current_def)
  next
    case False
    show ?thesis
    proof (cases media)
      case (Inl e)
      with assms False empty show ?thesis
        by (simp add: joinRoom_def Let_def client_inv_def carries_current_def)
    next
      case (Inr L)
      define s3 where "s3 = startLocalStream L (s\<lparr>roomId := Some input, joinDisabled := True\<rparr>)"
      have s3: "client_inv s3" "localStream s3 \<noteq> None" "\<not> js_not (roomId s3)"
        using assms False empty
        by (auto simp: s3_def startLocalStream_def client_inv_def carries_current_def)
      have logged: "client_inv (t\<lparr>console := x\<rparr>)" if "client_inv t" for t :: "'a client" and x
        using that by (simp add: client_inv_def carries_current_def)
      show ?thesis
      proof (cases existing)
        case None
        with s3(1) False Inr show ?thesis
          by (simp add: joinRoom_def Let_def s3_def [symmetric] logged)
      next
        case (Some ex)
        define s4 where "s4 = s3\<lparr>polling := True\<rparr>"
        have np: "\<not> polling s3"
          using empty by (simp add: s3_def startLocalStream_def)
        have s4: "client_inv s4" "polling s4"
          using s3 by (auto simp: s4_def client_inv_def carries_current_def)
        obtain e s5 where c: "callAll env ex s4 = (e, s5)" by (cases "callAll env ex s4")
        from s4 have "carries_current s4" by (simp add: client_inv_def)
        from callAll_keeps [OF this, of env ex] c
        have k: "carries_current s5" "same_media s4 s5" by simp_all
        from s4(1) k have s5: "client_inv s5"
          by (rule inv_keeps) (simp add: s4(2))
        have "joinRoom env input media existing s =
            (case callAll env ex s4 of
               (Some e, s5) \<Rightarrow> (None, s5\<lparr>console := console s5 @ [''Join failed'']\<rparr>)
             | (None, s5) \<Rightarrow> (None, s5))"
          using False Inr Some np
          by (simp add: joinRoom_def Let_def s3_def [symmetric] s4_def [symmetric])
        then have "snd (joinRoom env input media existing s) =
            (case e of None \<Rightarrow> s5 | Some x \<Rightarrow> s5\<lparr>console := console s5 @ [''Join failed'']\<rparr>)"
          by (simp add: c split: option.splits)
        with s5 show ?thesis
          by (simp add: logged split: option.splits)
      qed
    qed
  qed
qed

lemma fire_inv:
  assumes "client_inv s" and "enabled e s"
  shows "client_inv (fire env e s)"
proof (cases e)
  case (JoinClicked input media existing)
  with assms show ?thesis by (simp add: joinRoom_inv)
next
  case (ToggleClicked capture)
  with assms show ?thesis by (simp add: toggleScreenShare_inv)
next
  case (CaptureAnswered capture)
  with assms show ?thesis by (simp add: startScreenShare_inv)
next
  case CaptureEnded
  with assms show ?thesis by (simp add: stopScreenShare_inv)
next
  case (PollAnswered response)
  with assms show ?thesis by (simp add: pollRound_inv)
next
  case (ConnectionEnded p)
  from assms have "carries_current s" by (simp add: client_inv_def)
  from cleanupPeer_keeps [OF this, of p]
  have k: "carries_current (snd (cleanupPeer p s))" "same_media s (snd (cleanupPeer p s))"
    by simp_all
  from assms(1) k have "client_inv (snd (cleanupPeer p s))"
    by (rule inv_keeps) (simp add: cleanupPeer_peers)
  with ConnectionEnded show ?thesis by simp
next
  case (CandidateFound p c)
  from assms have "carries_current s" by (simp add: client_inv_def)
  from sendMessage_keeps [OF this, of env p "''ice-candidate''" "Some c"]
  have k: "carries_current (sendMessage env p ''ice-candidate'' (Some c) s)"
    "same_media s (sendMessage env p ''ice-candidate'' (Some c) s)" by simp_all
  from assms(1) k have "client_inv (sendMessage env p ''ice-candidate'' (Some c) s)"
    by (rule inv_keeps) (simp add: sendMessage_def)
  with CandidateFound show ?thesis by simp
next
  case (TrackArrived p)
  with assms show ?thesis
    by (simp add: client_inv_def carries_current_def)
qed

lemma evolves_inv: "evolves s t \<Longrightarrow> client_inv s \<Longrightarrow> client_inv t"
  by (induction rule: evolves.induct) (simp_all add: fire_inv)

lemma reachable_inv: "reachable label s \<Longrightarrow> client_inv s"
proof -
  assume "reachable label s"
  then have "evolves (init_client label) s"
    by (simp add: reachable_def)
  moreover have "client_inv (init_client label :: 'a client)"
    by (simp add: client_inv_def init_client_def carries_current_def)
  ultimately show ?thesis by (rule evolves_inv)
qed

lemma evolves_trans: "evolves t u \<Longrightarrow> evolves s t \<Longrightarrow> evolves s u"
  by (induction rule: evolves.induct) (simp_all add: evolves.fired)

lemma reachable_evolves: "reachable label s \<Longrightarrow> evolves s t \<Longrightarrow> reachable label t"
  unfolding reachable_def by (rule evolves_trans)

lemma reachable_fire: "reachable label s \<Longrightarrow> enabled e s \<Longrightarrow> reachable label (fire env e s)"
  unfolding reachable_def by (rule evolves.fired)

subsection \<open>A stopped track stays stopped\<close>

lemma replaceOn_mono: "ended \<subseteq> snd (snd (replaceOn st ps ended))"
proof (induction ps arbitrary: ended)
  case Nil
  show ?case by simp
next
  case (Cons a ps)
  obtain i pc where a: "a = (i, pc)" by (cases a)
  show ?case
  proof (cases st)
    case None
    then show ?thesis by (auto simp: a)
  next
    case (Some S)
    have "ended \<union> tid ` set (sending (senders pc))
        \<subseteq> snd (snd (replaceOn st ps (ended \<union> tid ` set (sending (senders pc)))))"
      by (rule Cons.IH)
    then show ?thesis
      by (auto simp: a Some Let_def split: prod.splits)
  qed
qed

lemma replaceTracks_mono: "stopped s \<subseteq> stopped (snd (replaceTracks st s))"
  using replaceOn_mono [of "stopped s" st "peers s"]
  by (auto simp: replaceTracks_def split: prod.splits)

lemma stopScreenShare_mono: "stopped s \<subseteq> stopped (snd (stopScreenShare s))"
proof (cases "screenStream s")
  case None
  then show ?thesis by (simp add: stopScreenShare_def)
next
  case (Some S)
  let ?s4 = "s\<lparr>stopped := stopped s \<union> tid ` set (tracks S), screenStream := None,
      currentStream := localStream s, localVideo := localStream s\<rparr>"
  have "stopped ?s4 \<subseteq> stopped (snd (replaceTracks (localStream s) ?s4))"
    by (rule replaceTracks_mono)
  then show ?thesis
    by (auto simp: stopScreenShare_def Some Let_def split: prod.splits option.splits)
qed

lemma startScreenShare_mono: "stopped s \<subseteq> stopped (snd (startScreenShare capture s))"
proof (cases capture)
  case (Inl err)
  then show ?thesis by (simp add: startScreenShare_def)
next
  case (Inr S)
  let ?s3 = "s\<lparr>screenStream := Some S, currentStream := Some S, localVideo := Some S\<rparr>"
  have "stopped ?s3 \<subseteq> stopped (snd (replaceTracks (Some S) ?s3))"
    by (rule replaceTracks_mono)
  with Inr show ?thesis
    by (auto simp: startScreenShare_def Let_def split: list.splits prod.splits option.splits)
qed

lemma toggleScreenShare_mono: "stopped s \<subseteq> stopped (snd (toggleScreenShare capture s))"
  using stopScreenShare_mono [of s] startScreenShare_mono [of s capture]
  by (simp add: toggleScreenShare_def split: option.splits)

lemma pollRound_stopped:
  assumes "carries_current s"
  shows "stopped (pollRound env response s) = stopped s"
proof (cases response)
  case None
  then show ?thesis by (simp add: pollRound_def)
next
  case (Some ms)
  obtain e s1 where h: "handleAll env ms s = (e, s1)" by (cases "handleAll env ms s")
  with handleAll_keeps [OF assms, of env ms] have "stopped s1 = stopped s"
    by (simp add: same_media_def)
  with h Some show ?thesis
    by (cases e) (simp_all add: pollRound_def)
qed

lemma joinRoom_stopped:
  assumes "peers s = []"
  shows "stopped (snd (joinRoom env input media existing s)) = stopped s"
proof -
  have k: "stopped (snd (callAll env ex t)) = stopped t" if "peers t = []" for ex and t :: "'a client"
  proof -
    from that have "carries_current t" by (simp add: carries_current_def)
    from callAll_keeps [OF this, of env ex] show ?thesis by (simp add: same_media_def)
  qed
  have "stopped (snd (case callAll env ex t of
        (Some e, s5) \<Rightarrow> (None :: exn option, s5\<lparr>console := console s5 @ [''Join failed'']\<rparr>)
      | (None, s5) \<Rightarrow> (None, s5))) = stopped t" if "peers t = []" for ex and t :: "'a client"
  proof -
    obtain e s5 where h: "callAll env ex t = (e, s5)" by (cases "callAll env ex t")
    with k [OF that, of ex] have "stopped s5 = stopped t" by simp
    with h show ?thesis by (cases e) simp_all
  qed
  with assms show ?thesis
    by (simp add: joinRoom_def Let_def startLocalStream_def split: sum.splits option.splits)
qed

lemma fire_mono:
  assumes "client_inv s" and "enabled e s"
  shows "stopped s \<subseteq> stopped (fire env e s)"
proof (cases e)
  case (JoinClicked input media existing)
  with assms have "peers s = []" by (simp add: client_inv_def)
  with JoinClicked show ?thesis by (simp add: joinRoom_stopped)
next
  case (ToggleClicked capture)
  then show ?thesis by (simp add: toggleScreenShare_mono)
next
  case (CaptureAnswered capture)
  then show ?thesis by (simp add: startScreenShare_mono)
next
  case CaptureEnded
  then show ?thesis by (simp add: stopScreenShare_mono)
next
  case (PollAnswered response)
  with assms show ?thesis by (simp add: pollRound_stopped client_inv_def)
next
  case (ConnectionEnded p)
  then show ?thesis by (simp add: cleanupPeer_def split: peer_value.splits)
next
  case (CandidateFound p c)
  then show ?thesis by (simp add: sendMessage_def)
next
  case (TrackArrived p)
  then show ?thesis by simp
qed

lemma evolves_mono: "evolves s t \<Longrightarrow> client_inv s \<Longrightarrow> stopped s \<subseteq> stopped t"
proof (induction rule: evolves.induct)
  case same
  show ?case by simp
next
  case (fired t e env)
  then have "client_inv t" by (simp add: evolves_inv)
  with fired show ?case
    using fire_mono [of t e env] by auto
qed

subsection \<open>Switching the source\<close>

lemma toggle_on:
  assumes "screenStream s = None" and "getVideoTracks S \<noteq> []"
  shows "toggleScreenShare (Inr S) s =
      (None, s\<lparr>screenStream := Some S, currentStream := Some S, localVideo := Some S,
            peers := map (\<lambda>(i, pc). (i, reattach S pc)) (peers s),
            stopped := stopped s \<union> sent_by (peers s),
            toggleLabel := ''Stop Screen Share''\<rparr>)"
  using assms
  by (cases "getVideoTracks S")
    (simp_all add: toggleScreenShare_def startScreenShare_def Let_def replaceTracks_Some)

lemma toggle_off:
  assumes "screenStream s = Some S" and "localStream s = Some L"
  shows "toggleScreenShare capture s =
      (None, s\<lparr>stopped := stopped s \<union> tid ` set (tracks S) \<union> sent_by (peers s),
          screenStream := None, currentStream := Some L, localVideo := Some L,
          peers := map (\<lambda>(i, pc). (i, reattach L pc)) (peers s),
          toggleLabel := ''Toggle Screen Share''\<rparr>)"
  using assms
  by (simp add: toggleScreenShare_def stopScreenShare_def Let_def replaceTracks_Some)

lemma toggle_off_no_peers:
  assumes "screenStream s = Some S" and "peers s = []"
  shows "toggleScreenShare capture s =
      (None, s\<lparr>stopped := stopped s \<union> tid ` set (tracks S),
          screenStream := None, currentStream := localStream s, localVideo := localStream s,
          toggleLabel := ''Toggle Screen Share''\<rparr>)"
  using assms
  by (simp add: toggleScreenShare_def stopScreenShare_def Let_def replaceTracks_no_peers)

lemma sent_by_carried:
  assumes "carries_current s" and "peers s \<noteq> []"
  shows "sent_by (peers s) = tid ` set (getTracks (currentStream s))"
proof -
  from assms(1) have "\<forall>x \<in> set (peers s). sending (senders (snd x)) = getTracks (currentStream s)"
    by (auto simp: carries_current_def list_all_iff)
  then have "sent_by (peers s) = (\<Union>x \<in> set (peers s). tid ` set (getTracks (currentStream s)))"
    by (simp add: sent_by_def case_prod_beta)
  moreover from assms(2) have "set (peers s) \<noteq> {}" by simp
  ultimately show ?thesis by simp
qed

subsection \<open>The example states\<close>

lemma alone_eq:
  "alone = (init_client ''Toggle Screen Share'')
     \<lparr>roomId := Some ''room'', joinDisabled := True, localStream := Some camera,
      currentStream := Some camera, localVideo := Some camera, polling := True\<rparr>"
  by (simp add: alone_def joinRoom_def Let_def init_client_def startLocalStream_def)

lemma with_B_eq:
  "with_B = (init_client ''Toggle Screen Share'')
     \<lparr>roomId := Some ''room'', joinDisabled := True, localStream := Some camera,
      currentStream := Some camera, localVideo := Some camera, polling := True,
      peers := [(''B'', \<lparr>senders = [Some \<lparr>tid = 1, kind = Audio\<rparr>, Some \<lparr>tid = 2, kind = Video\<rparr>],
                 localDescription = Some 0, remoteDescription = None, candidates = []\<rparr>)],
      outbox := [(''B'', ''offer'', Some 0)]\<rparr>"
  by (simp add: with_B_def joinRoom_def Let_def init_client_def startLocalStream_def
      callPeer_def peers_get_def connectPeer_def updateConnection_def sendMessage_def env0_def
      createPeerConnection_def addTrack_def camera_def)

lemma reachable_alone: "reachable ''Toggle Screen Share'' alone"
  unfolding alone_def reachable_def
  by (rule evolves.fired [OF evolves.same]) (simp add: init_client_def)

lemma reachable_with_B: "reachable ''Toggle Screen Share'' with_B"
  unfolding with_B_def reachable_def
  by (rule evolves.fired [OF evolves.same]) (simp add: init_client_def)

lemma with_B_facts:
  "screenStream with_B = None" "localStream with_B = Some camera"
  "currentStream with_B = Some camera" "stopped with_B = {}"
  "peers with_B = [(''B'', \<lparr>senders = [Some \<lparr>tid = 1, kind = Audio\<rparr>, Some \<lparr>tid = 2, kind = Video\<rparr>],
                 localDescription = Some 0, remoteDescription = None, candidates = []\<rparr>)]"
  by (simp_all add: with_B_eq init_client_def)

lemma alone_facts:
  "screenStream alone = None" "localStream alone = Some camera"
  "currentStream alone = Some camera" "stopped alone = {}" "peers alone = []" "polling alone"
  by (simp_all add: alone_eq init_client_def)

lemma screen_video: "getVideoTracks screen \<noteq> []"
  by (simp add: getVideoTracks_def screen_def)

lemma outgoing_with_B: "outgoing with_B ''B'' = Some (tracks camera)"
  by (simp add: outgoing_def with_B_facts camera_def)

section \<open>Claims about the client\<close>

subsection \<open>Screen share and back\<close>

text \<open>
  C6, as amended. In a reachable state with no screen stream, let the capture succeed with
  a stream that has a video track, and let the button be clicked again. Every connection
  that was live before is sending the tracks of the screen stream after the first click,
  and after the second click it is sending exactly the tracks it was sending before the
  first: the same number of tracks, and the same track objects. The current stream is the
  screen stream in between and the former current stream at the end.
\<close>

theorem round_trip_spec:
  assumes "reachable label s" and "screenStream s = None" and "getVideoTracks S \<noteq> []"
    and "outgoing s p = Some ts"
  shows "outgoing (snd (toggleScreenShare (Inr S) s)) p = Some (tracks S)
       \<and> outgoing (snd (toggleScreenShare capture (snd (toggleScreenShare (Inr S) s)))) p = Some ts
       \<and> map_option length
           (outgoing (snd (toggleScreenShare capture (snd (toggleScreenShare (Inr S) s)))) p) =
           map_option length (outgoing s p)
       \<and> currentStream (snd (toggleScreenShare (Inr S) s)) = Some S
       \<and> currentStream (snd (toggleScreenShare capture (snd (toggleScreenShare (Inr S) s)))) =
           currentStream s"
proof -
  from assms(4) obtain pc where pc: "map_of (peers s) p = Some pc" "ts = sending (senders pc)"
    by (auto simp: outgoing_def)
  have inv: "client_inv s" using assms(1) by (rule reachable_inv)
  then have cur: "currentStream s = localStream s"
    using assms(2) by (simp add: client_inv_def)
  from pc have "peers s \<noteq> []" by auto
  with inv obtain L where L: "localStream s = Some L"
    by (auto simp: client_inv_def)
  from inv pc cur L have ts: "ts = tracks L"
    by (simp add: carries_lookup [of s p pc] client_inv_def getTracks_def)
  let ?s1 = "snd (toggleScreenShare (Inr S) s)"
  let ?s2 = "snd (toggleScreenShare capture ?s1)"
  have s1: "?s1 = s\<lparr>screenStream := Some S, currentStream := Some S, localVideo := Some S,
            peers := map (\<lambda>(i, pc). (i, reattach S pc)) (peers s),
            stopped := stopped s \<union> sent_by (peers s),
            toggleLabel := ''Stop Screen Share''\<rparr>"
    using assms(2,3) by (simp add: toggle_on)
  have a: "outgoing ?s1 p = Some (tracks S)"
    using pc(1) by (simp add: s1 outgoing_def map_of_reattach sending_reattach)
  have b: "screenStream ?s1 = Some S" "localStream ?s1 = Some L"
    using L by (simp_all add: s1)
  have c: "map_of (peers ?s1) p = Some (reattach S pc)"
    using pc(1) by (simp add: s1 map_of_reattach)
  have d: "outgoing ?s2 p = Some (tracks L)"
    using c by (simp add: toggle_off [OF b] outgoing_def map_of_reattach sending_reattach)
  have e: "currentStream ?s2 = Some L"
    by (simp add: toggle_off [OF b])
  have f: "currentStream ?s1 = Some S"
    by (simp add: s1)
  from a d e f ts cur L assms(4) show ?thesis by simp
qed

text \<open>The page has joined a room that held B, so it has a connection to B carrying the two
  camera tracks.\<close>

theorem round_trip_spec_witness:
  "reachable ''Toggle Screen Share'' with_B \<and> screenStream with_B = None
   \<and> getVideoTracks screen \<noteq> [] \<and> outgoing with_B ''B'' = Some (tracks camera)
   \<and> outgoing (snd (toggleScreenShare (Inr screen) with_B)) ''B'' = Some (tracks screen)
   \<and> outgoing (snd (toggleScreenShare (Inl Rejected) (snd (toggleScreenShare (Inr screen) with_B)))) ''B'' =
       Some (tracks camera)
   \<and> map_option length
       (outgoing (snd (toggleScreenShare (Inl Rejected) (snd (toggleScreenShare (Inr screen) with_B)))) ''B'') =
       Some 2"
  using round_trip_spec [OF reachable_with_B with_B_facts(1) screen_video outgoing_with_B, of "Inl Rejected"]
    reachable_with_B with_B_facts(1) screen_video outgoing_with_B
  by (simp add: camera_def)

text \<open>C6 as stated fails in its last clause: after the switch to the screen and back the
  connection to B carries the track objects 1 and 2 it carried before, not different
  ones.\<close>

theorem round_trip_counterexample:
  "outgoing with_B ''B'' = Some [\<lparr>tid = 1, kind = Audio\<rparr>, \<lparr>tid = 2, kind = Video\<rparr>]
   \<and> outgoing (snd (toggleScreenShare (Inl Rejected) (snd (toggleScreenShare (Inr screen) with_B)))) ''B'' =
       Some [\<lparr>tid = 1, kind = Audio\<rparr>, \<lparr>tid = 2, kind = Video\<rparr>]"
proof -
  let ?s1 = "snd (toggleScreenShare (Inr screen) with_B)"
  have s1: "?s1 =
      with_B\<lparr>screenStream := Some screen, currentStream := Some screen, localVideo := Some screen,
            peers := map (\<lambda>(i, pc). (i, reattach screen pc)) (peers with_B),
            stopped := stopped with_B \<union> sent_by (peers with_B),
            toggleLabel := ''Stop Screen Share''\<rparr>"
    by (simp add: toggle_on [OF with_B_facts(1) screen_video])
  have "screenStream ?s1 = Some screen" "localStream ?s1 = Some camera"
    by (simp_all add: s1 with_B_facts)
  from toggle_off [OF this, of "Inl Rejected"]
  have "peers (snd (toggleScreenShare (Inl Rejected) ?s1)) =
      map (\<lambda>(i, pc). (i, reattach camera pc)) (peers ?s1)"
    by simp
  then have "outgoing (snd (toggleScreenShare (Inl Rejected) ?s1)) ''B'' = Some (tracks camera)"
    by (simp add: outgoing_def s1 with_B_facts(5) sending_reattach)
  with outgoing_with_B show ?thesis
    by (simp add: camera_def)
qed

subsection \<open>Candidates\<close>

text \<open>An \<open>ice-candidate\<close> message whose sender names no connection and no inherited
  property changes nothing and raises nothing; from a sender with a connection, the
  candidate is passed to that connection and to no other, and the only other effect is
  the log line when the connection rejects the call.\<close>

lemma candidate_plain:
  "(peers_get s f = Absent \<longrightarrow>
      handleMessage env \<lparr>mtype = ''ice-candidate'', mdata = d, mfrom = f\<rparr> s = (None, s))
   \<and> (\<forall>pc c. map_of (peers s) f = Some pc \<and> d = Some c \<longrightarrow>
        handleMessage env \<lparr>mtype = ''ice-candidate'', mdata = d, mfrom = f\<rparr> s =
          (None,
           (if candidateRejected env
            then s\<lparr>peers := AList.update f (pc\<lparr>candidates := candidates pc @ [c]\<rparr>) (peers s),
                   console := console s @ [''ICE error'']\<rparr>
            else s\<lparr>peers := AList.update f (pc\<lparr>candidates := candidates pc @ [c]\<rparr>) (peers s)\<rparr>)))"
  by (simp add: handleMessage_def addIceCandidate_def updateConnection_def peers_get_def)

text \<open>
  C7 fails on the code when the sender of the message is named like a property that
  every object inherits. The page is connected to B only and holds no connection for
  \<open>constructor\<close>, yet \<open>peers['constructor']\<close> is truthy, so an \<open>ice-candidate\<close> message
  from \<open>constructor\<close> is not discarded: \<open>handleMessage\<close> raises a TypeError, the poll loop
  logs it as a polling error, and the candidate of B that follows in the same response is
  never handled. The same response with sender C, a name no object inherits, is handled
  to its end. The relay accepts and delivers such a message.
\<close>

theorem candidate_inherited_name:
  "map_of (peers with_B) ''constructor'' = None
   \<and> handleMessage env0 \<lparr>mtype = ''ice-candidate'', mdata = Some 9, mfrom = ''constructor''\<rparr> with_B =
       (Some TypeError, with_B)
   \<and> pollRound env0
         (Some [\<lparr>mtype = ''ice-candidate'', mdata = Some 9, mfrom = ''constructor''\<rparr>,
                \<lparr>mtype = ''ice-candidate'', mdata = Some 8, mfrom = ''B''\<rparr>]) with_B =
       with_B\<lparr>console := [''Polling error'']\<rparr>
   \<and> map_option candidates (map_of (peers (pollRound env0
         (Some [\<lparr>mtype = ''ice-candidate'', mdata = Some 9, mfrom = ''C''\<rparr>,
                \<lparr>mtype = ''ice-candidate'', mdata = Some 8, mfrom = ''B''\<rparr>]) with_B)) ''B'') = Some [8]
   \<and> fst (poll [] (Some ''A'')
         (snd (send [] (Some ''A'') (Some ''ice-candidate'') (Some 9) (Some ''constructor'') init_server))) =
       Inr (Messages [\<lparr>mtype = ''ice-candidate'', mdata = Some (9::nat), mfrom = ''constructor''\<rparr>])"
proof -
  have a: "peers_get with_B ''constructor'' = Inherited"
    by (simp add: peers_get_def with_B_facts)
  have b: "peers_get with_B ''C'' = Absent"
    by (simp add: peers_get_def with_B_facts plain_def object_prototype_def)
  have c: "peers_get with_B ''B'' = Connection \<lparr>senders = [Some \<lparr>tid = 1, kind = Audio\<rparr>, Some \<lparr>tid = 2, kind = Video\<rparr>],
                 localDescription = Some 0, remoteDescription = None, candidates = []\<rparr>"
    by (simp add: peers_get_def with_B_facts)
  have d: "console with_B = []"
    by (simp add: with_B_eq init_client_def)
  have "map_of (peers with_B) ''constructor'' = None"
    by (simp add: with_B_facts)
  moreover have "handleMessage env0 \<lparr>mtype = ''ice-candidate'', mdata = Some 9, mfrom = ''constructor''\<rparr> with_B =
       (Some TypeError, with_B)"
    by (simp add: handleMessage_def addIceCandidate_def a)
  moreover have "pollRound env0
         (Some [\<lparr>mtype = ''ice-candidate'', mdata = Some 9, mfrom = ''constructor''\<rparr>,
                \<lparr>mtype = ''ice-candidate'', mdata = Some 8, mfrom = ''B''\<rparr>]) with_B =
       with_B\<lparr>console := [''Polling error'']\<rparr>"
    by (simp add: pollRound_def handleMessage_def addIceCandidate_def a d)
  moreover have "map_option candidates (map_of (peers (pollRound env0
         (Some [\<lparr>mtype = ''ice-candidate'', mdata = Some 9, mfrom = ''C''\<rparr>,
                \<lparr>mtype = ''ice-candidate'', mdata = Some 8, mfrom = ''B''\<rparr>]) with_B)) ''B'') = Some [8]"
    by (simp add: pollRound_def handleMessage_def addIceCandidate_def b c updateConnection_def
        with_B_facts env0_def)
  moreover have "fst (poll [] (Some ''A'')
         (snd (send [] (Some ''A'') (Some ''ice-candidate'') (Some 9) (Some ''constructor'') init_server))) =
       Inr (Messages [\<lparr>mtype = ''ice-candidate'', mdata = Some (9::nat), mfrom = ''constructor''\<rparr>])"
    by (simp add: send_plain poll_plain queue_of_def init_server_def)
  ultimately show ?thesis by simp
qed

subsection \<open>A rejected capture\<close>

text \<open>
  C8. When no screen stream is active and the capture request of \<open>toggleScreenShare\<close>
  is rejected, the call logs the failure, raises nothing and changes nothing else: the
  current, screen and local streams, the local video, every connection and its tracks,
  the stopped tracks and the label of the button are as before.
\<close>

theorem capture_rejected_spec:
  assumes "screenStream s = None"
  shows "toggleScreenShare (Inl err) s =
           (None, s\<lparr>console := console s @ [''Error starting screen share'']\<rparr>)
       \<and> currentStream (snd (toggleScreenShare (Inl err) s)) = currentStream s
       \<and> screenStream (snd (toggleScreenShare (Inl err) s)) = screenStream s
       \<and> localStream (snd (toggleScreenShare (Inl err) s)) = localStream s
       \<and> localVideo (snd (toggleScreenShare (Inl err) s)) = localVideo s
       \<and> peers (snd (toggleScreenShare (Inl err) s)) = peers s
       \<and> stopped (snd (toggleScreenShare (Inl err) s)) = stopped s
       \<and> toggleLabel (snd (toggleScreenShare (Inl err) s)) = toggleLabel s"
  using assms by (simp add: toggleScreenShare_def startScreenShare_def)

text \<open>A rejected capture while connected to B.\<close>

theorem capture_rejected_spec_witness:
  "screenStream with_B = None
   \<and> toggleScreenShare (Inl Rejected) with_B =
       (None, with_B\<lparr>console := [''Error starting screen share'']\<rparr>)
   \<and> toggleLabel (snd (toggleScreenShare (Inl Rejected) with_B)) = ''Toggle Screen Share''
   \<and> currentStream (snd (toggleScreenShare (Inl Rejected) with_B)) = Some camera
   \<and> outgoing (snd (toggleScreenShare (Inl Rejected) with_B)) ''B'' = Some (tracks camera)"
  using capture_rejected_spec [OF with_B_facts(1), of Rejected] with_B_facts(1) outgoing_with_B
  by (simp add: with_B_eq init_client_def outgoing_def)

subsection \<open>What happens to the camera tracks\<close>

text \<open>
  C10, as amended. In a reachable state with no screen stream, a successful switch to the
  screen stops exactly the tracks that the live connections are sending: when there is a
  live connection these are the tracks of the local stream, which are all stopped; when
  there is none, nothing is stopped. Whatever is stopped then stays stopped in every later
  state. The switch back does not acquire a new camera stream: the local stream is the
  same object, it is the current stream again, the same connections are live, and each of
  them is sending the tracks of that local stream.
\<close>

theorem camera_stopped_spec:
  assumes "reachable label s" and "screenStream s = None" and "getVideoTracks S \<noteq> []"
  shows "stopped (snd (toggleScreenShare (Inr S) s)) = stopped s \<union> sent_by (peers s)
       \<and> (peers s \<noteq> [] \<longrightarrow>
            tid ` set (getTracks (localStream s)) \<subseteq> stopped (snd (toggleScreenShare (Inr S) s)))
       \<and> (peers s = [] \<longrightarrow> stopped (snd (toggleScreenShare (Inr S) s)) = stopped s)
       \<and> (\<forall>t. evolves (snd (toggleScreenShare (Inr S) s)) t \<longrightarrow>
            stopped (snd (toggleScreenShare (Inr S) s)) \<subseteq> stopped t)
       \<and> localStream (snd (toggleScreenShare capture (snd (toggleScreenShare (Inr S) s)))) =
           localStream s
       \<and> currentStream (snd (toggleScreenShare capture (snd (toggleScreenShare (Inr S) s)))) =
           localStream s
       \<and> map fst (peers (snd (toggleScreenShare capture (snd (toggleScreenShare (Inr S) s))))) =
           map fst (peers s)
       \<and> (\<forall>p. p \<in> fst ` set (peers s) \<longrightarrow>
            outgoing (snd (toggleScreenShare capture (snd (toggleScreenShare (Inr S) s)))) p =
              Some (getTracks (localStream s)))"
proof -
  let ?s1 = "snd (toggleScreenShare (Inr S) s)"
  let ?s2 = "snd (toggleScreenShare capture ?s1)"
  have inv: "client_inv s" using assms(1) by (rule reachable_inv)
  then have cur: "currentStream s = localStream s" and car: "carries_current s"
    using assms(2) by (simp_all add: client_inv_def)
  have s1: "?s1 = s\<lparr>screenStream := Some S, currentStream := Some S, localVideo := Some S,
            peers := map (\<lambda>(i, pc). (i, reattach S pc)) (peers s),
            stopped := stopped s \<union> sent_by (peers s),
            toggleLabel := ''Stop Screen Share''\<rparr>"
    using assms(2,3) by (simp add: toggle_on)
  have a: "stopped ?s1 = stopped s \<union> sent_by (peers s)"
    by (simp add: s1)
  have b: "peers s \<noteq> [] \<longrightarrow> tid ` set (getTracks (localStream s)) \<subseteq> stopped ?s1"
    using sent_by_carried [OF car] cur by (auto simp: a)
  have c: "peers s = [] \<longrightarrow> stopped ?s1 = stopped s"
    by (simp add: a sent_by_def)
  have "reachable label ?s1"
    using reachable_fire [OF assms(1), of "ToggleClicked (Inr S)"] by simp
  then have inv1: "client_inv ?s1" by (rule reachable_inv)
  have d: "\<forall>t. evolves ?s1 t \<longrightarrow> stopped ?s1 \<subseteq> stopped t"
  proof (intro allI impI)
    fix t
    assume "evolves ?s1 t"
    then show "stopped ?s1 \<subseteq> stopped t"
      using inv1 by (rule evolves_mono)
  qed
  have scr: "screenStream ?s1 = Some S" by (simp add: s1)
  have e: "localStream ?s2 = localStream s \<and> currentStream ?s2 = localStream s
      \<and> map fst (peers ?s2) = map fst (peers s)
      \<and> (\<forall>p. p \<in> fst ` set (peers s) \<longrightarrow> outgoing ?s2 p = Some (getTracks (localStream s)))"
  proof (cases "peers s")
    case Nil
    then have "peers ?s1 = []" by (simp add: s1)
    from toggle_off_no_peers [OF scr this, of capture] Nil show ?thesis
      by (simp add: s1)
  next
    case (Cons x xs)
    with inv obtain L where L: "localStream s = Some L"
      by (auto simp: client_inv_def)
    then have "localStream ?s1 = Some L" by (simp add: s1)
    from toggle_off [OF scr this, of capture]
    have s2: "?s2 = ?s1\<lparr>stopped := stopped ?s1 \<union> tid ` set (tracks S) \<union> sent_by (peers ?s1),
          screenStream := None, currentStream := Some L, localVideo := Some L,
          peers := map (\<lambda>(i, pc). (i, reattach L pc)) (peers ?s1),
          toggleLabel := ''Toggle Screen Share''\<rparr>"
      by simp
    have keys: "map fst (map (\<lambda>(i, pc). (i, reattach T pc)) ps) = map fst ps"
      for T and ps :: "(peer_id \<times> 'a connection) list"
      by (induction ps) auto
    have "outgoing ?s2 p = Some (tracks L)" if "p \<in> fst ` set (peers s)" for p
    proof -
      from that obtain pc where "map_of (peers s) p = Some pc"
        by (metis domD dom_map_of_conv_image_fst)
      then have "map_of (peers ?s1) p = Some (reattach S pc)"
        by (simp add: s1 map_of_reattach)
      then show ?thesis
        unfolding s2 by (simp add: outgoing_def map_of_reattach sending_reattach)
    qed
    then show ?thesis
      unfolding s2 using L by (simp add: s1 keys getTracks_def split_beta)
  qed
  from a b c d e show ?thesis by blast
qed

text \<open>Connected to B: the switch to the screen stops the camera tracks 1 and 2, and the
  switch back attaches these stopped tracks to the connection to B again.\<close>

theorem camera_stopped_spec_witness:
  "reachable ''Toggle Screen Share'' with_B \<and> screenStream with_B = None
   \<and> getVideoTracks screen \<noteq> [] \<and> peers with_B \<noteq> []
   \<and> localStream with_B = Some camera
   \<and> stopped (snd (toggleScreenShare (Inr screen) with_B)) = {1, 2}
   \<and> localStream (snd (toggleScreenShare (Inl Rejected) (snd (toggleScreenShare (Inr screen) with_B)))) =
       Some camera
   \<and> outgoing (snd (toggleScreenShare (Inl Rejected) (snd (toggleScreenShare (Inr screen) with_B)))) ''B'' =
       Some (tracks camera)
   \<and> {1, 2} \<subseteq> stopped (snd (toggleScreenShare (Inl Rejected) (snd (toggleScreenShare (Inr screen) with_B))))"
proof -
  let ?s1 = "snd (toggleScreenShare (Inr screen) with_B)"
  let ?s2 = "snd (toggleScreenShare (Inl Rejected) ?s1)"
  note spec = camera_stopped_spec [OF reachable_with_B with_B_facts(1) screen_video, of "Inl Rejected"]
  have sent: "sent_by (peers with_B) = {1, 2}"
    by (auto simp: with_B_facts sent_by_def)
  have ev: "evolves ?s1 ?s2"
    using evolves.fired [OF evolves.same, of "ToggleClicked (Inl Rejected)" ?s1 env0] by simp
  from spec ev have "stopped ?s1 \<subseteq> stopped ?s2" by blast
  with spec sent reachable_with_B screen_video show ?thesis
    by (simp add: with_B_facts getTracks_def)
qed

text \<open>C10 as stated fails when no connection is live at the switch: alone in the room, the
  switch to the screen stops no camera track. When B then connects during the screen share
  and the share is stopped, the camera tracks attached to the connection to B are live:
  the only stopped track is the screen track 3.\<close>

theorem camera_stopped_counterexample:
  "reachable ''Toggle Screen Share'' alone \<and> localStream alone = Some camera
   \<and> currentStream (snd (toggleScreenShare (Inr screen) alone)) = Some screen
   \<and> stopped (snd (toggleScreenShare (Inr screen) alone)) = {}
   \<and> outgoing joined_during_share ''B'' = Some (tracks screen)
   \<and> outgoing (snd (toggleScreenShare (Inl Rejected) joined_during_share)) ''B'' = Some (tracks camera)
   \<and> stopped (snd (toggleScreenShare (Inl Rejected) joined_during_share)) = {3}"
proof -
  have on: "snd (toggleScreenShare (Inr screen) alone) =
      alone\<lparr>screenStream := Some screen, currentStream := Some screen, localVideo := Some screen,
            toggleLabel := ''Stop Screen Share''\<rparr>"
    by (simp add: toggle_on [OF alone_facts(1) screen_video] alone_facts sent_by_def)
  have j: "joined_during_share =
      alone\<lparr>screenStream := Some screen, currentStream := Some screen, localVideo := Some screen,
            toggleLabel := ''Stop Screen Share'',
            peers := [(''B'', \<lparr>senders = [Some \<lparr>tid = 3, kind = Video\<rparr>],
                 localDescription = Some 0, remoteDescription = None, candidates = []\<rparr>)],
            outbox := [(''B'', ''offer'', Some 0)]\<rparr>"
    unfolding joined_during_share_def fire.simps on
    by (simp add: pollRound_def handleMessage_def callPeer_def peers_get_def
        connectPeer_def updateConnection_def sendMessage_def env0_def
        createPeerConnection_def addTrack_def screen_def alone_eq init_client_def)
  have off: "snd (toggleScreenShare (Inl Rejected) joined_during_share) =
      joined_during_share\<lparr>stopped := {3}, screenStream := None, currentStream := Some camera,
          localVideo := Some camera,
          peers := map (\<lambda>(i, pc). (i, reattach camera pc)) (peers joined_during_share),
          toggleLabel := ''Toggle Screen Share''\<rparr>"
    by (subst toggle_off [where S = screen and L = camera])
      (auto simp: j alone_facts sent_by_def screen_def)
  have "outgoing (snd (toggleScreenShare (Inl Rejected) joined_during_share)) ''B'' = Some (tracks camera)"
    unfolding off by (simp add: j outgoing_def sending_reattach)
  moreover have "outgoing joined_during_share ''B'' = Some (tracks screen)"
    by (simp add: j outgoing_def screen_def)
  moreover have "stopped (snd (toggleScreenShare (Inl Rejected) joined_during_share)) = {3}"
    by (simp add: off)
  ultimately show ?thesis
    using reachable_alone by (simp add: on alone_facts)
qed

end
